theory Spec2Isabelle
  imports Main
begin

section \<open>Go strings and the library functions the handler calls\<close>

text \<open>
  A Go \<open>string\<close> is a sequence of bytes, and so is an Isabelle \<open>string\<close> (a list of
  8-bit characters). The source calls the functions of package \<open>strings\<close> only with
  separators of one byte (\<open>","\<close>, \<open>"."\<close>, \<open>":"\<close>), so the separator is a \<open>char\<close> here.
\<close>

definition HasPrefix :: "string \<Rightarrow> string \<Rightarrow> bool" where
  "HasPrefix s p = (length p \<le> length s \<and> take (length p) s = p)"

definition Contains :: "string \<Rightarrow> char \<Rightarrow> bool" where
  "Contains s c = (c \<in> set s)"

text \<open>
  \<open>strings.Split(s, sep)\<close>: all the substrings between separators; a string without
  separator (the empty one too) gives one element, so the result is never empty.
\<close>

fun Split :: "string \<Rightarrow> char \<Rightarrow> string list" where
  "Split [] c = [[]]"
| "Split (x # xs) c =
     (if x = c then [] # Split xs c
      else (case Split xs c of [] \<Rightarrow> [[x]] | y # ys \<Rightarrow> (x # y) # ys))"

text \<open>
  \<open>strings.SplitN(s, sep, n)\<close>: \<open>n = 0\<close> gives no substring, \<open>n < 0\<close> all of them,
  \<open>n > 0\<close> at most \<open>n\<close>, the last one being the unsplit rest.
\<close>

fun splitAtMost :: "nat \<Rightarrow> string \<Rightarrow> char \<Rightarrow> string list" where
  "splitAtMost 0 s c = []"
| "splitAtMost (Suc 0) s c = [s]"
| "splitAtMost (Suc (Suc k)) [] c = [[]]"
| "splitAtMost (Suc (Suc k)) (x # xs) c =
     (if x = c then [] # splitAtMost (Suc k) xs c
      else (case splitAtMost (Suc (Suc k)) xs c of [] \<Rightarrow> [[x]] | y # ys \<Rightarrow> (x # y) # ys))"

definition SplitN :: "string \<Rightarrow> char \<Rightarrow> int \<Rightarrow> string list" where
  "SplitN s c n = (if n < 0 then Split s c else splitAtMost (nat n) s c)"

text \<open>\<open>strings.LastIndex(s, sep)\<close>: the index of the last separator, \<open>-1\<close> without one.\<close>

fun LastIndex :: "string \<Rightarrow> char \<Rightarrow> int" where
  "LastIndex [] c = -1"
| "LastIndex (x # xs) c =
     (let r = LastIndex xs c in
      if r \<noteq> -1 then r + 1 else if x = c then 0 else -1)"

text \<open>\<open>strings.IndexByte(s, c)\<close>: the index of the first \<open>c\<close>, \<open>-1\<close> without one.\<close>

fun IndexByte :: "string \<Rightarrow> char \<Rightarrow> int" where
  "IndexByte [] c = -1"
| "IndexByte (x # xs) c =
     (if x = c then 0 else (let r = IndexByte xs c in if r = -1 then -1 else r + 1))"

text \<open>\<open>strings.Join(parts, sep)\<close>, which undoes \<open>Split\<close>.\<close>

fun Join :: "string list \<Rightarrow> char \<Rightarrow> string" where
  "Join [] c = []"
| "Join [p] c = p"
| "Join (p # q # ps) c = p @ c # Join (q # ps) c"

text \<open>
  \<open>strings.TrimSpace(s)\<close> removes the leading and the trailing white space "as defined
  by Unicode" (\<open>unicode.IsSpace\<close>). On the bytes of a string those are the six ASCII
  characters and the UTF-8 encodings of U+0085, U+00A0, U+1680, U+2000 to U+200A,
  U+2028, U+2029, U+202F, U+205F and U+3000; no byte of an encoding but its first starts
  a rune, so the last rune of a string is a space exactly when one of them is a suffix.
\<close>

definition spaceRunes :: "string list" where
  "spaceRunes =
     [[CHR 0x09], [CHR 0x0A], [CHR 0x0B], [CHR 0x0C], [CHR 0x0D], [CHR 0x20],
      [CHR 0xC2, CHR 0x85], [CHR 0xC2, CHR 0xA0], [CHR 0xE1, CHR 0x9A, CHR 0x80],
      [CHR 0xE2, CHR 0x80, CHR 0x80], [CHR 0xE2, CHR 0x80, CHR 0x81],
      [CHR 0xE2, CHR 0x80, CHR 0x82], [CHR 0xE2, CHR 0x80, CHR 0x83],
      [CHR 0xE2, CHR 0x80, CHR 0x84], [CHR 0xE2, CHR 0x80, CHR 0x85],
      [CHR 0xE2, CHR 0x80, CHR 0x86], [CHR 0xE2, CHR 0x80, CHR 0x87],
      [CHR 0xE2, CHR 0x80, CHR 0x88], [CHR 0xE2, CHR 0x80, CHR 0x89],
      [CHR 0xE2, CHR 0x80, CHR 0x8A], [CHR 0xE2, CHR 0x80, CHR 0xA8],
      [CHR 0xE2, CHR 0x80, CHR 0xA9], [CHR 0xE2, CHR 0x80, CHR 0xAF],
      [CHR 0xE2, CHR 0x81, CHR 0x9F], [CHR 0xE3, CHR 0x80, CHR 0x80]]"

definition leadingSpace :: "string list \<Rightarrow> string \<Rightarrow> nat" where
  "leadingSpace sps s =
     (case List.find (\<lambda>sp. HasPrefix s sp) sps of None \<Rightarrow> 0 | Some sp \<Rightarrow> length sp)"

function TrimLeft :: "string list \<Rightarrow> string \<Rightarrow> string" where
  "TrimLeft sps s =
     (if leadingSpace sps s = 0 \<or> s = [] then s else TrimLeft sps (drop (leadingSpace sps s) s))"
  by pat_completeness auto
termination
  by (relation "measure (\<lambda>(sps, s). length s)") auto

definition TrimSpace :: "string \<Rightarrow> string" where
  "TrimSpace s = rev (TrimLeft (map rev spaceRunes) (rev (TrimLeft spaceRunes s)))"

section \<open>The request and its address\<close>

text \<open>
  Of \<open>http.Request\<close> the handler reads the headers, the parsed query and \<open>RemoteAddr\<close>.
  \<open>Header\<close> and the query values map a key to its list of values; \<open>Get\<close> returns the
  first value of the key, and the empty string when there is none. A header is kept under
  the name the source asks for (Go brings both the stored name and the name asked for to
  the same canonical spelling).
\<close>

record Request =
  Header :: "string \<rightharpoonup> string list"
  Query :: "string \<rightharpoonup> string list"
  RemoteAddr :: string

definition Get :: "(string \<rightharpoonup> string list) \<Rightarrow> string \<Rightarrow> string" where
  "Get vs key = (case vs key of None \<Rightarrow> [] | Some [] \<Rightarrow> [] | Some (v # _) \<Rightarrow> v)"

text \<open>
  \<open>getClientIP\<close>. \<open>ips[0]\<close> is read with \<open>hd\<close>: \<open>Split\<close> never returns the empty
  list (lemma \<open>Split_not_Nil\<close> below), so the index is always in range.
\<close>

definition getClientIP :: "Request \<Rightarrow> string" where
  "getClientIP r =
     (let forwarded = Get (Header r) ''X-Forwarded-For'' in
      if forwarded \<noteq> [] then
        (let ips = Split forwarded CHR '','' in TrimSpace (hd ips))
      else
        (let realIP = Get (Header r) ''X-Real-IP'' in
         if realIP \<noteq> [] then realIP
         else
           (let ip = RemoteAddr r; idx = LastIndex ip CHR '':'' in
            if idx \<noteq> -1 then take (nat idx) ip else ip)))"

text \<open>
  \<open>isValidIP\<close>: the loop over the four parts returns false at the first empty one and
  the function returns true after it; any other number of parts goes to the colon test.
\<close>

definition isValidIP :: "string \<Rightarrow> bool" where
  "isValidIP ip =
     (let parts = Split ip CHR ''.'' in
      if length parts = 4 then (\<forall>part \<in> set parts. part \<noteq> [])
      else Contains ip CHR '':'')"

section \<open>Basic authentication\<close>

text \<open>
  Go's \<open>error\<close> values: the ones made by \<open>fmt.Errorf\<close> and \<open>errors.New\<close> carry their
  message; \<open>CorruptInputError\<close> is the error of package \<open>base64\<close> (its byte offset is
  left out: the source only tests it against \<open>nil\<close>).
\<close>

datatype error = Errorf string | CorruptInputError

fun Error :: "error \<Rightarrow> string" where
  "Error (Errorf m) = m"
| "Error CorruptInputError = ''illegal base64 data''"

text \<open>
  \<open>base64.StdEncoding\<close>: the standard alphabet, padding with \<open>=\<close>, not strict.
  \<open>decodeMap\<close> is \<open>0xFF\<close> on every byte outside the alphabet.
\<close>

definition encodeStd :: string where
  "encodeStd = ''ABCDEFGHIJKLMNOPQRSTUVWXYZabcdefghijklmnopqrstuvwxyz0123456789+/''"

definition padChar :: char where
  "padChar = CHR ''=''"

definition decodeMap :: "char \<Rightarrow> nat" where
  "decodeMap c = (let i = IndexByte encodeStd c in if i = -1 then 0xFF else nat i)"

text \<open>
  The three bytes of \<open>val = d0<<18 | d1<<12 | d2<<6 | d3\<close>, for four 6-bit values
  (on them the bitwise or is the sum).
\<close>

definition quantum :: "nat \<Rightarrow> nat \<Rightarrow> nat \<Rightarrow> nat \<Rightarrow> string" where
  "quantum d0 d1 d2 d3 =
     (let val = d0 * 2 ^ 18 + d1 * 2 ^ 12 + d2 * 2 ^ 6 + d3 in
      [char_of (val div 2 ^ 16), char_of (val div 2 ^ 8), char_of val])"

text \<open>
  \<open>decodeQuantum\<close>, repeated by \<open>Decode\<close> until the input ends, on an input without
  line breaks. A quantum is four characters of the alphabet, or two or three of them
  filled up with padding; padding ends the input; an input that ends inside a quantum is
  corrupt. The missing 6-bit values of a padded quantum are zero and the bits left over
  are not checked.
\<close>

fun decodeQuanta :: "string \<Rightarrow> error + string" where
  "decodeQuanta [] = Inr []"
| "decodeQuanta (a # b # c # d # rest) =
     (if decodeMap a = 0xFF \<or> decodeMap b = 0xFF then Inl CorruptInputError
      else if decodeMap c = 0xFF then
        (if c = padChar \<and> d = padChar \<and> rest = []
         then Inr (take 1 (quantum (decodeMap a) (decodeMap b) 0 0))
         else Inl CorruptInputError)
      else if decodeMap d = 0xFF then
        (if d = padChar \<and> rest = []
         then Inr (take 2 (quantum (decodeMap a) (decodeMap b) (decodeMap c) 0))
         else Inl CorruptInputError)
      else
        (case decodeQuanta rest of
           Inl err \<Rightarrow> Inl err
         | Inr bs \<Rightarrow> Inr (quantum (decodeMap a) (decodeMap b) (decodeMap c) (decodeMap d) @ bs)))"
| "decodeQuanta _ = Inl CorruptInputError"

text \<open>
  \<open>StdEncoding.DecodeString\<close>: carriage returns and line feeds are skipped wherever
  they stand. Go returns the bytes decoded before an error together with the error; the
  source drops them.
\<close>

definition DecodeString :: "string \<Rightarrow> error + string" where
  "DecodeString s = decodeQuanta (filter (\<lambda>c. c \<noteq> CHR 0x0A \<and> c \<noteq> CHR 0x0D) s)"

text \<open>\<open>StdEncoding.EncodeToString\<close>, which the clients and the tests of the source use.\<close>

definition encodeChar :: "nat \<Rightarrow> char" where
  "encodeChar v = encodeStd ! (v mod 64)"

fun EncodeToString :: "string \<Rightarrow> string" where
  "EncodeToString [] = []"
| "EncodeToString [x] =
     (let val = of_char x * 2 ^ 16 in
      [encodeChar (val div 2 ^ 18), encodeChar (val div 2 ^ 12), padChar, padChar])"
| "EncodeToString [x, y] =
     (let val = of_char x * 2 ^ 16 + of_char y * 2 ^ 8 in
      [encodeChar (val div 2 ^ 18), encodeChar (val div 2 ^ 12), encodeChar (val div 2 ^ 6),
       padChar])"
| "EncodeToString (x # y # z # rest) =
     (let val = of_char x * 2 ^ 16 + of_char y * 2 ^ 8 + of_char z in
      [encodeChar (val div 2 ^ 18), encodeChar (val div 2 ^ 12), encodeChar (val div 2 ^ 6),
       encodeChar val] @ EncodeToString rest)"

record Config =
  Port :: string
  CloudflareAPIToken :: string
  CloudflareZoneID :: string
  BasicAuthUsername :: string
  BasicAuthPassword :: string

text \<open>
  \<open>checkBasicAuth\<close>; the global \<open>config\<close> of the source is a parameter. When
  \<open>parts\<close> has two elements, \<open>parts[0]\<close> and \<open>parts[1]\<close> are in range.
\<close>

definition checkBasicAuth :: "Config \<Rightarrow> Request \<Rightarrow> bool" where
  "checkBasicAuth config r =
     (let auth = Get (Header r) ''Authorization'' in
      if auth = [] then False
      else if \<not> HasPrefix auth ''Basic '' then False
      else
        (case DecodeString (drop (length ''Basic '') auth) of
           Inl err \<Rightarrow> False
         | Inr decoded \<Rightarrow>
             (let parts = SplitN decoded CHR '':'' 2 in
              if length parts \<noteq> 2 then False
              else parts ! 0 = BasicAuthUsername config \<and> parts ! 1 = BasicAuthPassword config)))"

section \<open>The response\<close>

text \<open>
  The \<open>http.ResponseWriter\<close> as the recorder of \<open>httptest\<close> keeps it: the first
  \<open>WriteHeader\<close> fixes the status, and a write before any \<open>WriteHeader\<close> fixes it
  to 200. \<open>Fprintf\<close> gets the formatted text.
\<close>

record ResponseWriter =
  Code :: nat
  HeaderMap :: "string \<rightharpoonup> string list"
  Body :: string
  wroteHeader :: bool

definition NewRecorder :: ResponseWriter where
  "NewRecorder = \<lparr>Code = 200, HeaderMap = Map.empty, Body = [], wroteHeader = False\<rparr>"

definition Header_Set :: "ResponseWriter \<Rightarrow> string \<Rightarrow> string \<Rightarrow> ResponseWriter" where
  "Header_Set w key v = w\<lparr>HeaderMap := (HeaderMap w)(key \<mapsto> [v])\<rparr>"

definition WriteHeader :: "ResponseWriter \<Rightarrow> nat \<Rightarrow> ResponseWriter" where
  "WriteHeader w code = (if wroteHeader w then w else w\<lparr>Code := code, wroteHeader := True\<rparr>)"

definition Fprintf :: "ResponseWriter \<Rightarrow> string \<Rightarrow> ResponseWriter" where
  "Fprintf w text = (let w' = WriteHeader w 200 in w'\<lparr>Body := Body w' @ text\<rparr>)"

definition StatusOK :: nat where "StatusOK = 200"
definition StatusBadRequest :: nat where "StatusBadRequest = 400"
definition StatusUnauthorized :: nat where "StatusUnauthorized = 401"
definition StatusInternalServerError :: nat where "StatusInternalServerError = 500"

section \<open>The DNS provider client and the update handler\<close>

text \<open>
  The interface \<open>CloudflareClient\<close>: an implementation has a state of type \<open>'c\<close> (the
  test double its fields, the real client the provider behind it), and each method
  returns its results with the state after the call. An \<open>error\<close> result is \<open>None\<close>
  for \<open>nil\<close>.
\<close>

record 'c CloudflareClient =
  GetDNSRecord :: "'c \<Rightarrow> string \<Rightarrow> (string \<times> string \<times> error option) \<times> 'c"
  UpdateDNSRecord :: "'c \<Rightarrow> string \<Rightarrow> string \<Rightarrow> string \<Rightarrow> error option \<times> 'c"

text \<open>What a run of the handler leaves: the response, the client, the calls it made to the
  client in their order, and the lines it logged.\<close>

datatype call =
    is_read: GetDNSRecord_call string
  | is_write: UpdateDNSRecord_call string string string

record 'c outcome =
  response :: ResponseWriter
  client :: 'c
  calls :: "call list"
  logged :: "string list"

text \<open>\<open>handleDynDNSUpdate\<close>; the globals \<open>config\<close> and \<open>cfClient\<close> are parameters.\<close>

definition handleDynDNSUpdate ::
  "Config \<Rightarrow> 'c CloudflareClient \<Rightarrow> 'c \<Rightarrow> ResponseWriter \<Rightarrow> Request \<Rightarrow> 'c outcome" where
  "handleDynDNSUpdate config cfClient c w r =
     (if BasicAuthUsername config \<noteq> [] \<and> BasicAuthPassword config \<noteq> []
         \<and> \<not> checkBasicAuth config r then
        \<lparr>response =
           Fprintf
             (WriteHeader (Header_Set w ''WWW-Authenticate'' ''Basic realm=\"DynDNS\"'')
                StatusUnauthorized)
             ''badauth'',
         client = c, calls = [], logged = []\<rparr>
      else
        (let hostname = Get (Query r) ''hostname'';
             myip = Get (Query r) ''myip'' in
         if hostname = [] then
           \<lparr>response = Fprintf (WriteHeader w StatusBadRequest) ''notfqdn'',
            client = c, calls = [], logged = []\<rparr>
         else
           (let myip = (if myip = [] then getClientIP r else myip) in
            if \<not> isValidIP myip then
              \<lparr>response = Fprintf (WriteHeader w StatusBadRequest) ''badip'',
               client = c, calls = [], logged = []\<rparr>
            else
              (let log1 = [''Updating DNS record: hostname='' @ hostname @ '', ip='' @ myip];
                   ((recordID, currentIP, err), c1) = GetDNSRecord cfClient c hostname;
                   calls1 = [GetDNSRecord_call hostname] in
               case err of
                 Some e \<Rightarrow>
                   \<lparr>response = Fprintf (WriteHeader w StatusInternalServerError) ''911'',
                    client = c1, calls = calls1,
                    logged = log1 @ [''Error getting DNS record: '' @ Error e]\<rparr>
               | None \<Rightarrow>
                   if currentIP = myip then
                     \<lparr>response = Fprintf (WriteHeader w StatusOK) (''nochg '' @ myip),
                      client = c1, calls = calls1, logged = log1\<rparr>
                   else
                     (let (err2, c2) = UpdateDNSRecord cfClient c1 recordID hostname myip;
                          calls2 = calls1 @ [UpdateDNSRecord_call recordID hostname myip] in
                      case err2 of
                        Some e \<Rightarrow>
                          \<lparr>response =
                             Fprintf (WriteHeader w StatusInternalServerError) ''911'',
                           client = c2, calls = calls2,
                           logged = log1 @ [''Error updating DNS record: '' @ Error e]\<rparr>
                      | None \<Rightarrow>
                          \<lparr>response = Fprintf (WriteHeader w StatusOK) (''good '' @ myip),
                           client = c2, calls = calls2, logged = log1\<rparr>)))))"

text \<open>
  The test double of the source's tests. A key that \<open>RecordIDs\<close> lacks reads as the
  empty string.
\<close>

record MockCloudflareClient =
  Records :: "string \<rightharpoonup> string"
  RecordIDs :: "string \<rightharpoonup> string"
  GetError :: "error option"
  UpdateError :: "error option"
  UpdateCalled :: bool

definition Mock_GetDNSRecord ::
  "MockCloudflareClient \<Rightarrow> string \<Rightarrow> (string \<times> string \<times> error option) \<times> MockCloudflareClient"
  where
  "Mock_GetDNSRecord m hostname =
     (if GetError m \<noteq> None then (([], [], GetError m), m)
      else
        (case Records m hostname of
           Some ip \<Rightarrow>
             (((case RecordIDs m hostname of None \<Rightarrow> [] | Some i \<Rightarrow> i), ip, None), m)
         | None \<Rightarrow> (([], [], Some (Errorf ''record not found'')), m)))"

definition Mock_UpdateDNSRecord ::
  "MockCloudflareClient \<Rightarrow> string \<Rightarrow> string \<Rightarrow> string \<Rightarrow> error option \<times> MockCloudflareClient"
  where
  "Mock_UpdateDNSRecord m recordID hostname ip =
     (let m1 = m\<lparr>UpdateCalled := True\<rparr> in
      if UpdateError m1 \<noteq> None then (UpdateError m1, m1)
      else (None, m1\<lparr>Records := (Records m1)(hostname \<mapsto> ip)\<rparr>))"

definition MockClient :: "MockCloudflareClient CloudflareClient" where
  "MockClient = \<lparr>GetDNSRecord = Mock_GetDNSRecord, UpdateDNSRecord = Mock_UpdateDNSRecord\<rparr>"

text \<open>
  The real client. Of the provider's JSON envelope the structs keep the fields below
  (the fields of the source with \<open>omitempty\<close> and the untyped maps are left out).
\<close>

record CloudflareError =
  ErrorCode :: int
  Message :: string

record CloudflareDNSRecord =
  ID :: string
  Type :: string
  Name :: string
  Content :: string
  TTL :: int
  Proxied :: bool

record CloudflareListResponse =
  Success :: bool
  Errors :: "CloudflareError list"
  Messages :: "CloudflareError list"
  Result :: "CloudflareDNSRecord list"

record RealCloudflareClient =
  APIToken :: string
  ZoneID :: string

record HTTPRequest =
  Method :: string
  URL :: string
  RequestHeader :: "(string \<times> string) list"

text \<open>
  \<open>GetDNSRecord\<close> of the real client. The parameter \<open>exchange\<close> is the provider
  seen through \<open>http.NewRequest\<close>, \<open>client.Do\<close> (with its timeout of ten seconds),
  \<open>io.ReadAll\<close> and \<open>json.Unmarshal\<close>: the error of the first of them that fails,
  which the method returns as it is, or the decoded envelope (a \<open>result\<close> that is
  \<open>null\<close> or absent decodes to the empty list).
\<close>

definition RealCloudflareClient_GetDNSRecord ::
  "RealCloudflareClient \<Rightarrow> (HTTPRequest \<Rightarrow> error + CloudflareListResponse) \<Rightarrow> string
     \<Rightarrow> string \<times> string \<times> error option" where
  "RealCloudflareClient_GetDNSRecord c exchange hostname =
     (let url = ''https://api.cloudflare.com/client/v4/zones/'' @ ZoneID c
                  @ ''/dns_records?name='' @ hostname;
          req = \<lparr>Method = ''GET'', URL = url,
                 RequestHeader = [(''Authorization'', ''Bearer '' @ APIToken c),
                                  (''Content-Type'', ''application/json'')]\<rparr> in
      case exchange req of
        Inl err \<Rightarrow> ([], [], Some err)
      | Inr cfResp \<Rightarrow>
          if \<not> Success cfResp then
            (case Errors cfResp of
               e # _ \<Rightarrow> ([], [], Some (Errorf (''cloudflare API error: '' @ Message e)))
             | [] \<Rightarrow> ([], [], Some (Errorf ''cloudflare API returned error'')))
          else
            (case Result cfResp of
               [] \<Rightarrow> ([], [], Some (Errorf (''DNS record not found: '' @ hostname)))
             | record # _ \<Rightarrow> (ID record, Content record, None)))"

section \<open>The words of the specification\<close>

text \<open>
  "\<open>ip\<close> decomposes into exactly four dot-separated segments": it is \<open>a.b.c.d\<close>
  for four strings without a dot.
\<close>

definition fourSegments :: "string \<Rightarrow> string \<Rightarrow> string \<Rightarrow> string \<Rightarrow> string \<Rightarrow> bool" where
  "fourSegments ip a b c d =
     (ip = a @ ''.'' @ b @ ''.'' @ c @ ''.'' @ d
      \<and> CHR ''.'' \<notin> set a \<and> CHR ''.'' \<notin> set b \<and> CHR ''.'' \<notin> set c \<and> CHR ''.'' \<notin> set d)"

text \<open>
  The two failures of the fetch that the specification names, as the real client makes
  them: "not found", and the "provider error" of an envelope whose success flag is false
  (with the message of its first error, when it has one).
\<close>

definition notFoundError :: "string \<Rightarrow> error" where
  "notFoundError hostname = Errorf (''DNS record not found: '' @ hostname)"

definition providerError :: "CloudflareListResponse \<Rightarrow> error" where
  "providerError cfResp =
     (case Errors cfResp of
        [] \<Rightarrow> Errorf ''cloudflare API returned error''
      | e # _ \<Rightarrow> Errorf (''cloudflare API error: '' @ Message e))"

section \<open>The fixtures of the source's tests\<close>

text \<open>
  The configuration without credentials, the double with one record and the request
  \<open>?hostname=test.example.com&myip=ip\<close> of \<open>TestHandleDynDNSUpdate\<close>.
\<close>

definition testConfig :: Config where
  "testConfig = \<lparr>Port = ''8080'', CloudflareAPIToken = ''token'', CloudflareZoneID = ''test-zone'',
     BasicAuthUsername = [], BasicAuthPassword = []\<rparr>"

definition testMock :: MockCloudflareClient where
  "testMock = \<lparr>Records = [''test.example.com'' \<mapsto> ''1.1.1.1''],
     RecordIDs = [''test.example.com'' \<mapsto> ''rec123''],
     GetError = None, UpdateError = None, UpdateCalled = False\<rparr>"

definition testRequest :: "string \<Rightarrow> Request" where
  "testRequest ip = \<lparr>Header = Map.empty,
     Query = [''hostname'' \<mapsto> [''test.example.com''], ''myip'' \<mapsto> [ip]], RemoteAddr = ''192.0.2.1:1234''\<rparr>"

text \<open>The doubles of the cases "Cloudflare API error on get" and "on update".\<close>

definition failingGetMock :: MockCloudflareClient where
  "failingGetMock = \<lparr>Records = Map.empty, RecordIDs = Map.empty,
     GetError = Some (Errorf ''api error''), UpdateError = None, UpdateCalled = False\<rparr>"

definition failingUpdateMock :: MockCloudflareClient where
  "failingUpdateMock = testMock\<lparr>UpdateError := Some (Errorf ''update error'')\<rparr>"

text \<open>The requests of \<open>TestGetClientIP\<close>: two headers and a peer address.\<close>

definition originRequest :: "string \<Rightarrow> string \<Rightarrow> string \<Rightarrow> Request" where
  "originRequest xForwardedFor xRealIP remoteAddr =
     \<lparr>Header = [''X-Forwarded-For'' \<mapsto> [xForwardedFor], ''X-Real-IP'' \<mapsto> [xRealIP]],
      Query = [''hostname'' \<mapsto> [''test.example.com'']], RemoteAddr = remoteAddr\<rparr>"

text \<open>A request without forwarding headers whose peer address is \<open>::1\<close>, without port.\<close>

definition loopbackRequest :: Request where
  "loopbackRequest = \<lparr>Header = Map.empty, Query = [''hostname'' \<mapsto> [''test.example.com'']],
     RemoteAddr = ''::1''\<rparr>"

text \<open>
  Envelopes of the provider: a failure (no result), and a success with two records of the
  name.
\<close>

definition failureEnvelope :: CloudflareListResponse where
  "failureEnvelope = \<lparr>Success = False,
     Errors = [\<lparr>ErrorCode = 10000, Message = ''Authentication error''\<rparr>],
     Messages = [], Result = []\<rparr>"

definition testRealClient :: RealCloudflareClient where
  "testRealClient = \<lparr>APIToken = ''token'', ZoneID = ''test-zone''\<rparr>"

definition twoRecords :: CloudflareListResponse where
  "twoRecords = \<lparr>Success = True, Errors = [], Messages = [],
     Result = [\<lparr>ID = ''rec123'', Type = ''A'', Name = ''test.example.com'', Content = ''1.1.1.1'',
                 TTL = 1, Proxied = False\<rparr>,
               \<lparr>ID = ''rec456'', Type = ''AAAA'', Name = ''test.example.com'', Content = ''2001:db8::1'',
                 TTL = 1, Proxied = False\<rparr>]\<rparr>"

text \<open>
  The configuration of \<open>TestCheckBasicAuth\<close>, and a request with an
  \<open>Authorization\<close> header.
\<close>

definition authConfig :: Config where
  "authConfig = testConfig\<lparr>BasicAuthUsername := ''testuser'', BasicAuthPassword := ''testpass''\<rparr>"

definition authRequest :: "string \<Rightarrow> Request" where
  "authRequest authHeader = (testRequest ''1.2.3.4'')\<lparr>Header := [''Authorization'' \<mapsto> [authHeader]]\<rparr>"

text \<open>The test configuration with credentials of one's choice.\<close>

definition colonConfig :: "string \<Rightarrow> string \<Rightarrow> Config" where
  "colonConfig user pass = testConfig\<lparr>BasicAuthUsername := user, BasicAuthPassword := pass\<rparr>"

section \<open>Facts about the string functions\<close>

lemma Split_not_Nil: "Split s c \<noteq> []"
  by (induction s) (auto split: list.splits)

lemma hd_Split: "hd (Split s c) = takeWhile (\<lambda>x. x \<noteq> c) s"
  by (induction s) (auto simp: Split_not_Nil split: list.splits)

lemma length_Split: "length (Split s c) = Suc (length (filter (\<lambda>x. x = c) s))"
  by (induction s) (auto split: list.splits)

lemma Split_no_sep: "c \<notin> set a \<Longrightarrow> Split a c = [a]"
  by (induction a) auto

lemma Split_append_sep: "c \<notin> set a \<Longrightarrow> Split (a @ c # rest) c = a # Split rest c"
  by (induction a) auto

lemma Split_segments: "p \<in> set (Split s c) \<Longrightarrow> c \<notin> set p"
  by (induction s arbitrary: p) (auto split: list.splits if_splits)

lemma Join_Split: "Join (Split s c) c = s"
proof (induction s)
  case Nil
  then show ?case by simp
next
  case (Cons x xs)
  show ?case
  proof (cases "Split xs c")
    case Nil
    then show ?thesis using Split_not_Nil by blast
  next
    case (Cons y ys)
    with Cons.IH show ?thesis by (cases ys) auto
  qed
qed

lemma LastIndex_ge: "- 1 \<le> LastIndex s c"
  by (induction s) (auto simp: Let_def)

lemma LastIndex_none: "(LastIndex s c = - 1) = (c \<notin> set s)"
proof (induction s)
  case Nil
  then show ?case by simp
next
  case (Cons x xs)
  have "- 1 \<le> LastIndex xs c" by (rule LastIndex_ge)
  with Cons show ?case by (auto simp: Let_def)
qed

lemma LastIndex_last: "c \<notin> set t \<Longrightarrow> LastIndex (pre @ c # t) c = int (length pre)"
  by (induction pre) (auto simp: Let_def LastIndex_none)

lemma splitAtMost_2_no_sep: "c \<notin> set s \<Longrightarrow> splitAtMost (Suc (Suc 0)) s c = [s]"
  by (induction s) auto

lemma splitAtMost_2_sep: "c \<notin> set u \<Longrightarrow> splitAtMost (Suc (Suc 0)) (u @ c # p) c = [u, p]"
  by (induction u) auto

lemma SplitN_2_no_sep: "c \<notin> set s \<Longrightarrow> SplitN s c 2 = [s]"
  by (simp add: SplitN_def splitAtMost_2_no_sep numeral_2_eq_2)

lemma SplitN_2_sep: "c \<notin> set u \<Longrightarrow> SplitN (u @ c # p) c 2 = [u, p]"
  by (simp add: SplitN_def splitAtMost_2_sep numeral_2_eq_2)

lemma first_sep: "c \<in> set s \<Longrightarrow> \<exists>u p. s = u @ c # p \<and> c \<notin> set u"
  by (metis split_list_first)

lemma last_sep: "c \<in> set s \<Longrightarrow> \<exists>u p. s = u @ c # p \<and> c \<notin> set p"
  by (metis split_list_last)

lemma takeWhile_sep: "c \<notin> set u \<Longrightarrow> takeWhile (\<lambda>x. x \<noteq> c) (u @ c # p) = u"
  by (induction u) auto

lemma dropWhile_sep: "c \<notin> set u \<Longrightarrow> dropWhile (\<lambda>x. x \<noteq> c) (u @ c # p) = c # p"
  by (induction u) auto

lemma first_sep_unique:
  assumes "u @ c # p = u' @ c # p'" and "c \<notin> set u" and "c \<notin> set u'"
  shows "u = u' \<and> p = p'"
proof -
  have "takeWhile (\<lambda>x. x \<noteq> c) (u @ c # p) = takeWhile (\<lambda>x. x \<noteq> c) (u' @ c # p')"
    using assms(1) by simp
  then have u: "u = u'" using assms(2,3) by (simp add: takeWhile_sep)
  with assms(1) show ?thesis by simp
qed

lemma SplitN_2_iff: "(SplitN s c 2 = [u, p]) = (s = u @ c # p \<and> c \<notin> set u)"
proof
  assume split: "SplitN s c 2 = [u, p]"
  have "c \<in> set s"
  proof (rule ccontr)
    assume "c \<notin> set s"
    then have "SplitN s c 2 = [s]" by (rule SplitN_2_no_sep)
    with split show False by simp
  qed
  from first_sep [OF this] obtain u' p' where s: "s = u' @ c # p'" and u': "c \<notin> set u'"
    by blast
  have "SplitN (u' @ c # p') c 2 = [u', p']" using u' by (rule SplitN_2_sep)
  with split have "[u', p'] = [u, p]" unfolding s by simp
  then have "u' = u \<and> p' = p" by simp
  then show "s = u @ c # p \<and> c \<notin> set u" using s u' by blast
next
  assume "s = u @ c # p \<and> c \<notin> set u"
  then show "SplitN s c 2 = [u, p]" by (simp add: SplitN_2_sep)
qed

lemma length_SplitN_2: "(length (SplitN s c 2) = 2) = (c \<in> set s)"
proof (cases "c \<in> set s")
  case True
  from first_sep [OF this] obtain u p where "s = u @ c # p" "c \<notin> set u" by blast
  then show ?thesis by (simp add: SplitN_2_sep)
next
  case False
  then show ?thesis by (simp add: SplitN_2_no_sep)
qed

lemma Split_four: "(Split ip CHR ''.'' = [a, b, c, d]) = fourSegments ip a b c d"
proof
  assume split: "Split ip CHR ''.'' = [a, b, c, d]"
  have "Join (Split ip CHR ''.'') CHR ''.'' = ip" by (rule Join_Split)
  then have ip: "ip = a @ ''.'' @ b @ ''.'' @ c @ ''.'' @ d" unfolding split by simp
  have "\<And>p. p \<in> set [a, b, c, d] \<Longrightarrow> CHR ''.'' \<notin> set p"
    using Split_segments [of _ ip "CHR ''.''"] unfolding split by blast
  then have "CHR ''.'' \<notin> set a" "CHR ''.'' \<notin> set b" "CHR ''.'' \<notin> set c" "CHR ''.'' \<notin> set d"
    by simp_all
  with ip show "fourSegments ip a b c d" unfolding fourSegments_def by blast
next
  assume "fourSegments ip a b c d"
  then show "Split ip CHR ''.'' = [a, b, c, d]"
    unfolding fourSegments_def by (simp add: Split_append_sep Split_no_sep)
qed

lemma length_four: "(length xs = 4) = (\<exists>a b c d. xs = [a, b, c, d])"
proof
  assume "length xs = 4"
  then have "length xs = Suc (Suc (Suc (Suc 0)))" by simp
  then show "\<exists>a b c d. xs = [a, b, c, d]" by (auto simp: length_Suc_conv)
qed auto

lemma isValidIP_iff:
  "isValidIP ip =
     ((\<exists>a b c d. fourSegments ip a b c d \<and> a \<noteq> [] \<and> b \<noteq> [] \<and> c \<noteq> [] \<and> d \<noteq> [])
      \<or> ((\<nexists>a b c d. fourSegments ip a b c d) \<and> CHR '':'' \<in> set ip))"
proof (cases "length (Split ip CHR ''.'') = 4")
  case True
  then obtain a b c d where split: "Split ip CHR ''.'' = [a, b, c, d]"
    unfolding length_four by blast
  then have four: "fourSegments ip a b c d" by (simp add: Split_four)
  have unique: "fourSegments ip a' b' c' d' \<Longrightarrow> a' = a \<and> b' = b \<and> c' = c \<and> d' = d" for a' b' c' d'
    using split unfolding Split_four [symmetric] by simp
  have "isValidIP ip = (a \<noteq> [] \<and> b \<noteq> [] \<and> c \<noteq> [] \<and> d \<noteq> [])"
    by (simp add: isValidIP_def split)
  with four unique show ?thesis by blast
next
  case False
  then have none: "\<nexists>a b c d. fourSegments ip a b c d"
    unfolding Split_four [symmetric] by auto
  from False have "isValidIP ip = (CHR '':'' \<in> set ip)"
    by (simp add: isValidIP_def Contains_def)
  with none show ?thesis by blast
qed

lemma getClientIP_RemoteAddr:
  assumes "Get (Header r) ''X-Forwarded-For'' = []" and "Get (Header r) ''X-Real-IP'' = []"
  shows "RemoteAddr r = host @ '':'' @ port \<Longrightarrow> CHR '':'' \<notin> set port \<Longrightarrow> getClientIP r = host"
    and "CHR '':'' \<notin> set (RemoteAddr r) \<Longrightarrow> getClientIP r = RemoteAddr r"
proof -
  assume addr: "RemoteAddr r = host @ '':'' @ port" and port: "CHR '':'' \<notin> set port"
  have "LastIndex (RemoteAddr r) CHR '':'' = int (length host)"
    unfolding addr using port by (simp add: LastIndex_last)
  then show "getClientIP r = host"
    using assms addr by (simp add: getClientIP_def)
next
  assume "CHR '':'' \<notin> set (RemoteAddr r)"
  then have "LastIndex (RemoteAddr r) CHR '':'' = - 1" by (simp add: LastIndex_none)
  then show "getClientIP r = RemoteAddr r"
    using assms by (simp add: getClientIP_def)
qed

section \<open>Facts about the credentials check\<close>

lemmas base64_defs = DecodeString_def decodeMap_def encodeStd_def quantum_def padChar_def
  encodeChar_def char_of_eq_iff take_bit_eq_mod

lemma DecodeString_examples:
  "DecodeString ''dGVzdHVzZXI6dGVzdHBhc3M='' = Inr ''testuser:testpass''"
  "DecodeString ''dGVzdHVzZXI6d3JvbmdwYXNz'' = Inr ''testuser:wrongpass''"
  "DecodeString ''bm9jb2xvbg=='' = Inr ''nocolon''"
  "DecodeString ''YTpiOmM6ZA=='' = Inr ''a:b:c:d''"
  "DecodeString ''dGVzdHVzZXI6dGVzdHBhc3M'' = Inl CorruptInputError"
  by (simp_all add: base64_defs)

lemma IndexByte_nth: "distinct s \<Longrightarrow> i < length s \<Longrightarrow> IndexByte s (s ! i) = int i"
proof (induction s arbitrary: i)
  case Nil
  then show ?case by simp
next
  case (Cons x xs)
  show ?case
  proof (cases i)
    case 0
    then show ?thesis by simp
  next
    case (Suc j)
    with Cons.prems have j: "j < length xs" and "distinct xs" and "x \<notin> set xs" by simp_all
    then have "xs ! j \<noteq> x" using nth_mem by fastforce
    moreover have "IndexByte xs (xs ! j) = int j" using Cons.IH \<open>distinct xs\<close> j by blast
    ultimately show ?thesis using Suc by (simp add: Let_def)
  qed
qed

lemma distinct_encodeStd: "distinct encodeStd" and length_encodeStd: "length encodeStd = 64"
  by (simp_all add: encodeStd_def)

lemma decodeMap_encodeChar: "decodeMap (encodeChar v) = v mod 64"
proof -
  have "v mod 64 < length encodeStd" by (simp add: length_encodeStd)
  from IndexByte_nth [OF distinct_encodeStd this]
  show ?thesis by (simp add: decodeMap_def encodeChar_def)
qed

lemma decodeMap_padChar: "decodeMap padChar = 0xFF"
  by (simp add: decodeMap_def padChar_def encodeStd_def)

lemma encodeChar_in_alphabet: "encodeChar v \<in> set encodeStd"
  unfolding encodeChar_def by (rule nth_mem) (simp add: length_encodeStd)

lemma sextets:
  fixes n :: nat
  assumes "n < 2 ^ 24"
  shows "(n div 2 ^ 18 mod 64) * 2 ^ 18 + (n div 2 ^ 12 mod 64) * 2 ^ 12
       + (n div 2 ^ 6 mod 64) * 2 ^ 6 + n mod 64 = n"
proof -
  have a: "n div 2 ^ 12 = n div 2 ^ 6 div 64" and b: "n div 2 ^ 18 = n div 2 ^ 6 div 64 div 64"
    by (simp_all add: div_mult2_eq)
  have small: "n div 2 ^ 6 div 64 div 64 < 64" using assms by (simp add: div_mult2_eq [symmetric])
  define m1 where "m1 = n div 2 ^ 6"
  define m2 where "m2 = m1 div 64"
  define m3 where "m3 = m2 div 64"
  have "n = m1 * 64 + n mod 64" unfolding m1_def by simp
  moreover have "m1 = m2 * 64 + m1 mod 64" unfolding m2_def by simp
  moreover have "m2 = m3 * 64 + m2 mod 64" unfolding m3_def by simp
  moreover have "m3 mod 64 = m3" using small unfolding m3_def m2_def m1_def by simp
  ultimately have "m3 mod 64 * 2 ^ 18 + m2 mod 64 * 2 ^ 12 + m1 mod 64 * 2 ^ 6 + n mod 64 = n"
    by simp
  then show ?thesis unfolding a b m3_def m2_def m1_def .
qed

lemma quantum_sextets:
  fixes n :: nat
  assumes "n < 2 ^ 24"
  shows "quantum (n div 2 ^ 18 mod 64) (n div 2 ^ 12 mod 64) (n div 2 ^ 6 mod 64) (n mod 64)
       = [char_of (n div 2 ^ 16), char_of (n div 2 ^ 8), char_of n]"
  unfolding quantum_def Let_def sextets [OF assms] ..

lemma bytes24_bound:
  fixes a b c :: nat
  assumes "a < 256" "b < 256" "c < 256"
  shows "a * 2 ^ 16 + b * 2 ^ 8 + c < 2 ^ 24"
  using assms by simp

lemma bytes24_hi:
  fixes a b c :: nat
  assumes "a < 256" "b < 256" "c < 256"
  shows "(a * 2 ^ 16 + b * 2 ^ 8 + c) div 2 ^ 16 = a"
proof -
  have "b * 2 ^ 8 + c < 2 ^ 16" using assms by simp
  then show ?thesis by (simp add: add.assoc)
qed

lemma bytes24_mid:
  fixes a b c :: nat
  assumes "a < 256" "b < 256" "c < 256"
  shows "(a * 2 ^ 16 + b * 2 ^ 8 + c) div 2 ^ 8 mod 256 = b"
proof -
  have "a * 2 ^ 16 + b * 2 ^ 8 + c = (a * 256 + b) * 2 ^ 8 + c" by simp
  then have "(a * 2 ^ 16 + b * 2 ^ 8 + c) div 2 ^ 8 = a * 256 + b" using assms(3) by simp
  then show ?thesis using assms(2) by simp
qed

lemma bytes24_lo:
  fixes a b c :: nat
  assumes "a < 256" "b < 256" "c < 256"
  shows "(a * 2 ^ 16 + b * 2 ^ 8 + c) mod 256 = c"
proof -
  have eq: "a * 2 ^ 16 + b * 2 ^ 8 + c = (a * 256 + b) * 256 + c" by simp
  have "((a * 256 + b) * 256 + c) mod 256 = c mod 256" by (rule mod_mult_self3)
  then show ?thesis unfolding eq using assms(3) by (simp only: mod_less)
qed

lemma low_sextets:
  fixes a b :: nat
  shows "(a * 2 ^ 16) div 2 ^ 6 mod 64 = 0" and "(a * 2 ^ 16) mod 64 = 0"
    and "(a * 2 ^ 16 + b * 2 ^ 8) mod 64 = 0"
proof -
  have "a * 2 ^ 16 = a * 2 ^ 10 * 2 ^ 6" by simp
  then have "(a * 2 ^ 16) div 2 ^ 6 = a * 2 ^ 10" by (simp only: nonzero_mult_div_cancel_right) simp
  moreover have "(a * 2 ^ 10) mod 64 = 0" by simp
  ultimately show "(a * 2 ^ 16) div 2 ^ 6 mod 64 = 0" by (simp only:)
  show "(a * 2 ^ 16) mod 64 = 0" by simp
  show "(a * 2 ^ 16 + b * 2 ^ 8) mod 64 = 0" by simp
qed

lemma sextet_valid: "(v :: nat) mod 64 \<noteq> 255"
proof -
  have "v mod 64 < 64" by simp
  then show ?thesis by linarith
qed

lemma decodeQuanta_full:
  "decodeQuanta (encodeChar a # encodeChar b # encodeChar c # encodeChar d # rest) =
     (case decodeQuanta rest of
        Inl err \<Rightarrow> Inl err
      | Inr bs \<Rightarrow> Inr (quantum (a mod 64) (b mod 64) (c mod 64) (d mod 64) @ bs))"
  by (simp add: sextet_valid decodeMap_encodeChar split: sum.splits)

lemma decodeQuanta_pad1:
  "decodeQuanta [encodeChar a, encodeChar b, encodeChar c, padChar] =
     Inr (take 2 (quantum (a mod 64) (b mod 64) (c mod 64) 0))"
  by (simp add: sextet_valid decodeMap_encodeChar decodeMap_padChar)

lemma decodeQuanta_pad2:
  "decodeQuanta [encodeChar a, encodeChar b, padChar, padChar] =
     Inr (take 1 (quantum (a mod 64) (b mod 64) 0 0))"
  by (simp add: sextet_valid decodeMap_encodeChar decodeMap_padChar)


lemma decode_three:
  "decodeQuanta (EncodeToString (x # y # z # rest)) =
     (case decodeQuanta (EncodeToString rest) of
        Inl err \<Rightarrow> Inl err
      | Inr bs \<Rightarrow> Inr (x # y # z # bs))"
proof -
  define n :: nat where "n = of_char x * 2 ^ 16 + of_char y * 2 ^ 8 + of_char z"
  have x: "(of_char x :: nat) < 256" and y: "(of_char y :: nat) < 256"
    and z: "(of_char z :: nat) < 256"
    by simp_all
  have n: "n < 2 ^ 24" unfolding n_def by (rule bytes24_bound [OF x y z])
  have hi: "char_of (n div 2 ^ 16) = x"
    unfolding n_def bytes24_hi [OF x y z] by simp
  have "char_of (n div 2 ^ 8 mod 256) = y"
    unfolding n_def bytes24_mid [OF x y z] by simp
  then have mid: "char_of (n div 2 ^ 8) = y" by (simp only: char_of_mod_256)
  have "char_of (n mod 256) = z"
    unfolding n_def bytes24_lo [OF x y z] by simp
  then have lo: "char_of n = z" by (simp only: char_of_mod_256)
  have "EncodeToString (x # y # z # rest) =
      encodeChar (n div 2 ^ 18) # encodeChar (n div 2 ^ 12) # encodeChar (n div 2 ^ 6)
        # encodeChar n # EncodeToString rest"
    unfolding n_def by (simp only: EncodeToString.simps Let_def append_Cons append_Nil)
  then show ?thesis
    by (simp only: decodeQuanta_full quantum_sextets [OF n] hi mid lo append_Cons append_Nil)
qed

lemma decode_two: "decodeQuanta (EncodeToString [x, y]) = Inr [x, y]"
proof -
  define n :: nat where "n = of_char x * 2 ^ 16 + of_char y * 2 ^ 8 + 0"
  have x: "(of_char x :: nat) < 256" and y: "(of_char y :: nat) < 256" and z: "(0 :: nat) < 256"
    by simp_all
  have n: "n < 2 ^ 24" unfolding n_def by (rule bytes24_bound [OF x y z])
  have hi: "char_of (n div 2 ^ 16) = x"
    unfolding n_def bytes24_hi [OF x y z] by simp
  have "char_of (n div 2 ^ 8 mod 256) = y"
    unfolding n_def bytes24_mid [OF x y z] by simp
  then have mid: "char_of (n div 2 ^ 8) = y" by (simp only: char_of_mod_256)
  have zero: "n mod 64 = 0" unfolding n_def add_0_right by (rule low_sextets(3))
  have "EncodeToString [x, y] =
      [encodeChar (n div 2 ^ 18), encodeChar (n div 2 ^ 12), encodeChar (n div 2 ^ 6), padChar]"
    unfolding n_def add_0_right by (simp only: EncodeToString.simps Let_def)
  then have decoded: "decodeQuanta (EncodeToString [x, y]) =
      Inr (take 2 (quantum (n div 2 ^ 18 mod 64) (n div 2 ^ 12 mod 64) (n div 2 ^ 6 mod 64) (n mod 64)))"
    by (simp only: decodeQuanta_pad1 zero)
  have "take 2 (quantum (n div 2 ^ 18 mod 64) (n div 2 ^ 12 mod 64) (n div 2 ^ 6 mod 64) (n mod 64))
      = [x, y]"
    unfolding quantum_sextets [OF n] hi mid by simp
  then show ?thesis unfolding decoded by (rule arg_cong)
qed

lemma decode_one: "decodeQuanta (EncodeToString [x]) = Inr [x]"
proof -
  define n :: nat where "n = of_char x * 2 ^ 16 + 0 * 2 ^ 8 + 0"
  have x: "(of_char x :: nat) < 256" and z: "(0 :: nat) < 256"
    by simp_all
  have n: "n < 2 ^ 24" unfolding n_def by (rule bytes24_bound [OF x z z])
  have hi: "char_of (n div 2 ^ 16) = x"
    unfolding n_def bytes24_hi [OF x z z] by simp
  have n': "n = of_char x * 2 ^ 16" unfolding n_def by simp
  have zero: "n div 2 ^ 6 mod 64 = 0" "n mod 64 = 0"
    unfolding n' by (rule low_sextets)+
  have "EncodeToString [x] =
      [encodeChar (n div 2 ^ 18), encodeChar (n div 2 ^ 12), padChar, padChar]"
    unfolding n' by (simp only: EncodeToString.simps Let_def)
  then have decoded: "decodeQuanta (EncodeToString [x]) =
      Inr (take 1 (quantum (n div 2 ^ 18 mod 64) (n div 2 ^ 12 mod 64) (n div 2 ^ 6 mod 64) (n mod 64)))"
    by (simp only: decodeQuanta_pad2 zero)
  have "take 1 (quantum (n div 2 ^ 18 mod 64) (n div 2 ^ 12 mod 64) (n div 2 ^ 6 mod 64) (n mod 64))
      = [x]"
    unfolding quantum_sextets [OF n] hi by simp
  then show ?thesis unfolding decoded by (rule arg_cong)
qed

lemma decodeQuanta_EncodeToString: "decodeQuanta (EncodeToString bs) = Inr bs"
proof (induction bs rule: EncodeToString.induct)
  case 1
  show ?case by simp
next
  case (2 x)
  show ?case by (rule decode_one)
next
  case (3 x y)
  show ?case by (rule decode_two)
next
  case (4 x y z rest)
  show ?case unfolding decode_three "4.IH" [OF refl] by simp
qed

lemma EncodeToString_alphabet: "set (EncodeToString bs) \<subseteq> insert padChar (set encodeStd)"
proof (induction bs rule: EncodeToString.induct)
  case 1
  show ?case by simp
next
  case (2 x)
  show ?case by (simp add: Let_def encodeChar_in_alphabet)
next
  case (3 x y)
  show ?case by (simp add: Let_def encodeChar_in_alphabet)
next
  case (4 x y z rest)
  then show ?case by (simp add: Let_def encodeChar_in_alphabet)
qed

lemma DecodeString_EncodeToString: "DecodeString (EncodeToString bs) = Inr bs"
proof -
  have "CHR 0x0A \<notin> insert padChar (set encodeStd)" "CHR 0x0D \<notin> insert padChar (set encodeStd)"
    by (simp_all add: padChar_def encodeStd_def)
  with EncodeToString_alphabet [of bs]
  have "\<forall>c \<in> set (EncodeToString bs). c \<noteq> CHR 0x0A \<and> c \<noteq> CHR 0x0D" by blast
  then have "filter (\<lambda>c. c \<noteq> CHR 0x0A \<and> c \<noteq> CHR 0x0D) (EncodeToString bs) = EncodeToString bs"
    by (simp only: filter_id_conv)
  then show ?thesis unfolding DecodeString_def by (simp only: decodeQuanta_EncodeToString)
qed

lemma HasPrefix_iff: "HasPrefix s p = (\<exists>rest. s = p @ rest)"
proof
  assume "HasPrefix s p"
  then have "s = p @ drop (length p) s"
    unfolding HasPrefix_def by (metis append_take_drop_id)
  then show "\<exists>rest. s = p @ rest" ..
next
  assume "\<exists>rest. s = p @ rest"
  then show "HasPrefix s p" unfolding HasPrefix_def by auto
qed

lemma SplitN_credentials:
  assumes "SplitN decoded c 2 = parts"
  shows "(length parts = 2 \<and> parts ! 0 = user \<and> parts ! 1 = pass)
       = (decoded = user @ c # pass \<and> c \<notin> set user)"
proof (cases "c \<in> set decoded")
  case True
  from first_sep [OF this] obtain u p where decoded: "decoded = u @ c # p" and u: "c \<notin> set u"
    by blast
  then have parts: "parts = [u, p]" using assms by (simp add: SplitN_2_sep)
  have "(decoded = user @ c # pass \<and> c \<notin> set user) = (user = u \<and> pass = p)"
  proof
    assume a: "decoded = user @ c # pass \<and> c \<notin> set user"
    then have "user @ c # pass = u @ c # p" using decoded by simp
    from first_sep_unique [OF this] a u show "user = u \<and> pass = p" by blast
  next
    assume "user = u \<and> pass = p"
    then show "decoded = user @ c # pass \<and> c \<notin> set user" using decoded u by simp
  qed
  then show ?thesis unfolding parts by auto
next
  case False
  then have "parts = [decoded]" using assms by (simp add: SplitN_2_no_sep)
  then show ?thesis using False by auto
qed

lemma checkBasicAuth_iff:
  "checkBasicAuth config r =
     (\<exists>payload. Get (Header r) ''Authorization'' = ''Basic '' @ payload
        \<and> DecodeString payload = Inr (BasicAuthUsername config @ '':'' @ BasicAuthPassword config)
        \<and> CHR '':'' \<notin> set (BasicAuthUsername config))"
proof (cases "HasPrefix (Get (Header r) ''Authorization'') ''Basic ''")
  case True
  then obtain payload where auth: "Get (Header r) ''Authorization'' = ''Basic '' @ payload"
    unfolding HasPrefix_iff by blast
  have payload: "drop (length ''Basic '') (Get (Header r) ''Authorization'') = payload"
    unfolding auth by simp
  have nonempty: "Get (Header r) ''Authorization'' \<noteq> []" unfolding auth by simp
  have rhs: "(\<exists>payload'. Get (Header r) ''Authorization'' = ''Basic '' @ payload'
        \<and> DecodeString payload' = Inr (BasicAuthUsername config @ '':'' @ BasicAuthPassword config)
        \<and> CHR '':'' \<notin> set (BasicAuthUsername config))
      = (DecodeString payload = Inr (BasicAuthUsername config @ '':'' @ BasicAuthPassword config)
        \<and> CHR '':'' \<notin> set (BasicAuthUsername config))"
    unfolding auth by auto
  show ?thesis
  proof (cases "DecodeString payload")
    case (Inl err)
    then show ?thesis
      unfolding rhs using True nonempty payload by (simp add: checkBasicAuth_def)
  next
    case (Inr decoded)
    have "checkBasicAuth config r =
        (length (SplitN decoded CHR '':'' 2) = 2
         \<and> SplitN decoded CHR '':'' 2 ! 0 = BasicAuthUsername config
         \<and> SplitN decoded CHR '':'' 2 ! 1 = BasicAuthPassword config)"
      using True nonempty payload Inr by (simp add: checkBasicAuth_def Let_def)
    also have "\<dots> = (decoded = BasicAuthUsername config @ CHR '':'' # BasicAuthPassword config
         \<and> CHR '':'' \<notin> set (BasicAuthUsername config))"
      by (rule SplitN_credentials [OF refl])
    finally show ?thesis unfolding rhs Inr by simp
  qed
next
  case False
  then have "\<not> checkBasicAuth config r" by (simp add: checkBasicAuth_def)
  moreover from False have "\<nexists>payload. Get (Header r) ''Authorization'' = ''Basic '' @ payload"
    unfolding HasPrefix_iff by blast
  ultimately show ?thesis by blast
qed

section \<open>The update handler\<close>

lemma respond_NewRecorder:
  "Fprintf (WriteHeader NewRecorder code) text =
     \<lparr>Code = code, HeaderMap = Map.empty, Body = text, wroteHeader = True\<rparr>"
  by (simp add: Fprintf_def WriteHeader_def NewRecorder_def)

lemmas status_defs =
  StatusOK_def StatusBadRequest_def StatusUnauthorized_def StatusInternalServerError_def

text \<open>
  The handler by stages: the response of each early return, and what it does once the
  request is past authentication and validation.
\<close>

lemma handle_badauth:
  assumes "BasicAuthUsername config \<noteq> []" "BasicAuthPassword config \<noteq> []"
    "\<not> checkBasicAuth config r"
  shows "handleDynDNSUpdate config cfClient c w r =
     \<lparr>response = Fprintf (WriteHeader (Header_Set w ''WWW-Authenticate'' ''Basic realm=\"DynDNS\"'')
          StatusUnauthorized) ''badauth'',
      client = c, calls = [], logged = []\<rparr>"
  using assms by (simp add: handleDynDNSUpdate_def)

lemma handle_notfqdn:
  assumes "BasicAuthUsername config = [] \<or> BasicAuthPassword config = [] \<or> checkBasicAuth config r"
    and "Get (Query r) ''hostname'' = []"
  shows "handleDynDNSUpdate config cfClient c w r =
     \<lparr>response = Fprintf (WriteHeader w StatusBadRequest) ''notfqdn'',
      client = c, calls = [], logged = []\<rparr>"
  using assms by (auto simp add: handleDynDNSUpdate_def)

lemma handle_badip:
  assumes "BasicAuthUsername config = [] \<or> BasicAuthPassword config = [] \<or> checkBasicAuth config r"
    and "Get (Query r) ''hostname'' \<noteq> []"
    and "myip = (if Get (Query r) ''myip'' = [] then getClientIP r else Get (Query r) ''myip'')"
    and "\<not> isValidIP myip"
  shows "handleDynDNSUpdate config cfClient c w r =
     \<lparr>response = Fprintf (WriteHeader w StatusBadRequest) ''badip'',
      client = c, calls = [], logged = []\<rparr>"
  using assms by (auto simp add: handleDynDNSUpdate_def Let_def)

lemma handle_fetched:
  assumes "BasicAuthUsername config = [] \<or> BasicAuthPassword config = [] \<or> checkBasicAuth config r"
    and "hostname = Get (Query r) ''hostname''" and "hostname \<noteq> []"
    and "myip = (if Get (Query r) ''myip'' = [] then getClientIP r else Get (Query r) ''myip'')"
    and "isValidIP myip"
    and "GetDNSRecord cfClient c hostname = ((recordID, currentIP, err), c1)"
    and "UpdateDNSRecord cfClient c1 recordID hostname myip = (err2, c2)"
  shows "handleDynDNSUpdate config cfClient c w r =
     (case err of
        Some e \<Rightarrow>
          \<lparr>response = Fprintf (WriteHeader w StatusInternalServerError) ''911'',
           client = c1, calls = [GetDNSRecord_call hostname],
           logged = [''Updating DNS record: hostname='' @ hostname @ '', ip='' @ myip,
                     ''Error getting DNS record: '' @ Error e]\<rparr>
      | None \<Rightarrow>
          if currentIP = myip then
            \<lparr>response = Fprintf (WriteHeader w StatusOK) (''nochg '' @ myip),
             client = c1, calls = [GetDNSRecord_call hostname], logged = [''Updating DNS record: hostname='' @ hostname @ '', ip='' @ myip]\<rparr>
          else
            (case err2 of
               Some e \<Rightarrow>
                 \<lparr>response = Fprintf (WriteHeader w StatusInternalServerError) ''911'',
                  client = c2,
                  calls = [GetDNSRecord_call hostname, UpdateDNSRecord_call recordID hostname myip],
                  logged = [''Updating DNS record: hostname='' @ hostname @ '', ip='' @ myip,
                     ''Error updating DNS record: '' @ Error e]\<rparr>
             | None \<Rightarrow>
                 \<lparr>response = Fprintf (WriteHeader w StatusOK) (''good '' @ myip),
                  client = c2,
                  calls = [GetDNSRecord_call hostname, UpdateDNSRecord_call recordID hostname myip],
                  logged = [''Updating DNS record: hostname='' @ hostname @ '', ip='' @ myip]\<rparr>))"
proof -
  have guard: "\<not> (BasicAuthUsername config \<noteq> [] \<and> BasicAuthPassword config \<noteq> []
      \<and> \<not> checkBasicAuth config r)"
    using assms(1) by blast
  have hostname: "Get (Query r) ''hostname'' = hostname"
    using assms(2) by simp
  have myip: "(if Get (Query r) ''myip'' = [] then getClientIP r else Get (Query r) ''myip'') = myip"
    using assms(4) by simp
  show ?thesis
    unfolding handleDynDNSUpdate_def Let_def if_not_P [OF guard] hostname myip
    using assms(3,5,6,7) by (simp split: option.splits)
qed

lemma handle_calls:
  assumes "hostname = Get (Query r) ''hostname''"
    and "myip = (if Get (Query r) ''myip'' = [] then getClientIP r else Get (Query r) ''myip'')"
    and "GetDNSRecord cfClient c hostname = ((recordID, currentIP, err), c1)"
  shows "calls (handleDynDNSUpdate config cfClient c w r) = [] \<or>
     calls (handleDynDNSUpdate config cfClient c w r) = [GetDNSRecord_call hostname] \<or>
     calls (handleDynDNSUpdate config cfClient c w r) =
       [GetDNSRecord_call hostname, UpdateDNSRecord_call recordID hostname myip]"
proof (cases "(BasicAuthUsername config = [] \<or> BasicAuthPassword config = [] \<or> checkBasicAuth config r)
      \<and> hostname \<noteq> [] \<and> isValidIP myip")
  case True
  obtain err2 c2 where update: "UpdateDNSRecord cfClient c1 recordID hostname myip = (err2, c2)"
    by (cases "UpdateDNSRecord cfClient c1 recordID hostname myip") blast
  from True have auth: "BasicAuthUsername config = [] \<or> BasicAuthPassword config = [] \<or> checkBasicAuth config r"
    and nonempty: "hostname \<noteq> []" and valid: "isValidIP myip" by blast+
  show ?thesis
    unfolding handle_fetched [OF auth assms(1) nonempty assms(2) valid assms(3) update]
    by (simp split: option.splits)
next
  case False
  then consider "BasicAuthUsername config \<noteq> []" "BasicAuthPassword config \<noteq> []" "\<not> checkBasicAuth config r"
    | "BasicAuthUsername config = [] \<or> BasicAuthPassword config = [] \<or> checkBasicAuth config r"
      "Get (Query r) ''hostname'' = []"
    | "BasicAuthUsername config = [] \<or> BasicAuthPassword config = [] \<or> checkBasicAuth config r"
      "Get (Query r) ''hostname'' \<noteq> []" "\<not> isValidIP myip"
    unfolding assms(1) by blast
  then show ?thesis
  proof cases
    case 1
    then show ?thesis by (simp add: handle_badauth)
  next
    case 2
    then show ?thesis by (simp add: handle_notfqdn)
  next
    case 3
    then show ?thesis by (simp add: handle_badip [OF _ _ assms(2)])
  qed
qed

lemma Get_empty_iff:
  "(Get vs key = []) = (vs key = None \<or> vs key = Some [] \<or> (\<exists>rest. vs key = Some ([] # rest)))"
  by (auto simp: Get_def split: option.splits list.splits)

lemma getClientIP_Query: "getClientIP (r\<lparr>Query := q\<rparr>) = getClientIP r"
  by (simp add: getClientIP_def Let_def)

lemma checkBasicAuth_Query: "checkBasicAuth config (r\<lparr>Query := q\<rparr>) = checkBasicAuth config r"
  by (simp add: checkBasicAuth_def Let_def)

lemma handle_derived:
  assumes "Get (Query r) ''myip'' = []"
  shows "handleDynDNSUpdate config cfClient c w r =
     handleDynDNSUpdate config cfClient c w (r\<lparr>Query := (Query r)(''myip'' \<mapsto> [getClientIP r])\<rparr>)"
proof -
  let ?r' = "r\<lparr>Query := (Query r)(''myip'' \<mapsto> [getClientIP r])\<rparr>"
  have auth: "checkBasicAuth config ?r' = checkBasicAuth config r"
    by (rule checkBasicAuth_Query)
  have ip: "getClientIP ?r' = getClientIP r"
    by (rule getClientIP_Query)
  have hostname: "Get (Query ?r') ''hostname'' = Get (Query r) ''hostname''"
    by (simp add: Get_def)
  have myip: "Get (Query ?r') ''myip'' = getClientIP r"
    by (simp add: Get_def)
  have target: "(if Get (Query ?r') ''myip'' = [] then getClientIP ?r' else Get (Query ?r') ''myip'')
      = (if Get (Query r) ''myip'' = [] then getClientIP r else Get (Query r) ''myip'')"
    unfolding myip ip using assms by simp
  show ?thesis
    unfolding handleDynDNSUpdate_def Let_def auth hostname target ..
qed

lemma handle_past_validation:
  assumes auth: "BasicAuthUsername config = [] \<or> BasicAuthPassword config = [] \<or> checkBasicAuth config r"
    and hostname: "hostname = Get (Query r) ''hostname''" "hostname \<noteq> []"
    and myip: "myip = (if Get (Query r) ''myip'' = [] then getClientIP r else Get (Query r) ''myip'')"
    and valid: "isValidIP myip"
  shows "take 1 (calls (handleDynDNSUpdate config cfClient c w r)) = [GetDNSRecord_call hostname]
     \<and> take 1 (logged (handleDynDNSUpdate config cfClient c w r))
         = [''Updating DNS record: hostname='' @ hostname @ '', ip='' @ myip]"
proof -
  obtain recordID currentIP err c1
    where fetch: "GetDNSRecord cfClient c hostname = ((recordID, currentIP, err), c1)"
    by (metis prod.exhaust)
  obtain err2 c2 where update: "UpdateDNSRecord cfClient c1 recordID hostname myip = (err2, c2)"
    by (metis prod.exhaust)
  show ?thesis
    unfolding handle_fetched [OF auth hostname myip valid fetch update]
    by (simp split: option.splits)
qed

lemma handle_not_badauth:
  assumes auth: "BasicAuthUsername config = [] \<or> BasicAuthPassword config = [] \<or> checkBasicAuth config r"
  shows "Code (response (handleDynDNSUpdate config cfClient c NewRecorder r)) \<noteq> 401
       \<and> Body (response (handleDynDNSUpdate config cfClient c NewRecorder r)) \<noteq> ''badauth''"
proof (cases "Get (Query r) ''hostname'' = []")
  case True
  show ?thesis
    unfolding handle_notfqdn [OF auth True] by (simp add: respond_NewRecorder status_defs)
next
  case hostname: False
  define myip where "myip = (if Get (Query r) ''myip'' = [] then getClientIP r else Get (Query r) ''myip'')"
  show ?thesis
  proof (cases "isValidIP myip")
    case False
    show ?thesis
      unfolding handle_badip [OF auth hostname myip_def False]
      by (simp add: respond_NewRecorder status_defs)
  next
    case True
    obtain recordID currentIP err c1
      where fetch: "GetDNSRecord cfClient c (Get (Query r) ''hostname'') = ((recordID, currentIP, err), c1)"
      by (metis prod.exhaust)
    obtain err2 c2
      where update: "UpdateDNSRecord cfClient c1 recordID (Get (Query r) ''hostname'') myip = (err2, c2)"
      by (metis prod.exhaust)
    show ?thesis
      unfolding handle_fetched [OF auth refl hostname myip_def True fetch update]
      by (simp add: respond_NewRecorder status_defs split: option.splits)
  qed
qed

lemma getClientIP_Authorization:
  "getClientIP (r\<lparr>Header := (Header r)(''Authorization'' := h)\<rparr>) = getClientIP r"
  by (simp add: getClientIP_def Let_def Get_def)

lemma handle_Authorization:
  assumes "BasicAuthUsername config = [] \<or> BasicAuthPassword config = []"
  shows "handleDynDNSUpdate config cfClient c w (r\<lparr>Header := (Header r)(''Authorization'' := h)\<rparr>)
     = handleDynDNSUpdate config cfClient c w r"
proof -
  have guard: "\<not> (BasicAuthUsername config \<noteq> [] \<and> BasicAuthPassword config \<noteq> [] \<and> \<not> checkBasicAuth config r')"
    for r'
    using assms by blast
  show ?thesis
    unfolding handleDynDNSUpdate_def if_not_P [OF guard] getClientIP_Authorization
    by simp
qed

lemma handle_unauthorized:
  assumes "BasicAuthUsername config \<noteq> []" "BasicAuthPassword config \<noteq> []"
    "\<not> checkBasicAuth config r"
  shows "Body (response (handleDynDNSUpdate config cfClient c NewRecorder r)) = ''badauth''
       \<and> Code (response (handleDynDNSUpdate config cfClient c NewRecorder r)) = 401
       \<and> HeaderMap (response (handleDynDNSUpdate config cfClient c NewRecorder r)) ''WWW-Authenticate''
           = Some [''Basic realm=\"DynDNS\"'']
       \<and> calls (handleDynDNSUpdate config cfClient c NewRecorder r) = []
       \<and> client (handleDynDNSUpdate config cfClient c NewRecorder r) = c"
  unfolding handle_badauth [OF assms]
  by (simp add: Fprintf_def WriteHeader_def Header_Set_def NewRecorder_def status_defs)

lemmas test_defs = testConfig_def testMock_def testRequest_def MockClient_def
  Mock_GetDNSRecord_def Mock_UpdateDNSRecord_def Get_def

lemma isValidIP_examples: "isValidIP ''1.1.1.1''" "isValidIP ''1.2.3.4''"
  by (simp_all add: isValidIP_def)

text \<open>
  C1. A request that passes authentication and validation, for which the provider's
  record holds the target address already (equal as strings), is answered
  \<open>nochg <address>\<close> with status 200; the fetch is the only call to the client, no
  update is issued, and the client is left as the fetch left it.
\<close>

theorem handleDynDNSUpdate_nochg:
  assumes out: "out = handleDynDNSUpdate config cfClient c NewRecorder r"
    and auth: "BasicAuthUsername config = [] \<or> BasicAuthPassword config = [] \<or> checkBasicAuth config r"
    and hostname: "hostname = Get (Query r) ''hostname''" "hostname \<noteq> []"
    and myip: "myip = (if Get (Query r) ''myip'' = [] then getClientIP r else Get (Query r) ''myip'')"
    and valid: "isValidIP myip"
    and fetch: "GetDNSRecord cfClient c hostname = ((recordID, currentIP, None), c1)"
    and same: "currentIP = myip"
  shows "Body (response out) = ''nochg '' @ myip \<and> Code (response out) = 200
       \<and> calls out = [GetDNSRecord_call hostname]
       \<and> filter is_write (calls out) = []
       \<and> client out = c1"
  using assms
  by (auto simp add: handleDynDNSUpdate_def respond_NewRecorder status_defs Let_def)

theorem handleDynDNSUpdate_nochg_witness:
  "Body (response (handleDynDNSUpdate testConfig MockClient testMock NewRecorder (testRequest ''1.1.1.1'')))
     = ''nochg 1.1.1.1''
   \<and> Code (response (handleDynDNSUpdate testConfig MockClient testMock NewRecorder (testRequest ''1.1.1.1''))) = 200
   \<and> calls (handleDynDNSUpdate testConfig MockClient testMock NewRecorder (testRequest ''1.1.1.1''))
     = [GetDNSRecord_call ''test.example.com'']
   \<and> UpdateCalled (client (handleDynDNSUpdate testConfig MockClient testMock NewRecorder (testRequest ''1.1.1.1''))) = False"
proof -
  have auth: "BasicAuthUsername testConfig = [] \<or> BasicAuthPassword testConfig = []
      \<or> checkBasicAuth testConfig (testRequest ''1.1.1.1'')"
    by (simp add: testConfig_def)
  have hostname: "''test.example.com'' = Get (Query (testRequest ''1.1.1.1'')) ''hostname''"
    "''test.example.com'' \<noteq> []"
    by (simp_all add: test_defs)
  have myip: "''1.1.1.1'' = (if Get (Query (testRequest ''1.1.1.1'')) ''myip'' = []
      then getClientIP (testRequest ''1.1.1.1'') else Get (Query (testRequest ''1.1.1.1'')) ''myip'')"
    by (simp add: test_defs)
  have fetch: "GetDNSRecord MockClient testMock ''test.example.com'' = ((''rec123'', ''1.1.1.1'', None), testMock)"
    by (simp add: test_defs)
  from handleDynDNSUpdate_nochg [OF refl auth hostname myip isValidIP_examples(1) fetch refl]
  show ?thesis by (simp add: testMock_def)
qed

text \<open>
  C2. A request that passes authentication and validation, for which the provider's
  record holds another address than the target address, makes exactly one update call,
  after the fetch, with the record id the fetch returned, the hostname of the request
  and the target address; when the update succeeds the answer is \<open>good <address>\<close>
  with status 200.
\<close>

theorem handleDynDNSUpdate_good:
  assumes out: "out = handleDynDNSUpdate config cfClient c NewRecorder r"
    and auth: "BasicAuthUsername config = [] \<or> BasicAuthPassword config = [] \<or> checkBasicAuth config r"
    and hostname: "hostname = Get (Query r) ''hostname''" "hostname \<noteq> []"
    and myip: "myip = (if Get (Query r) ''myip'' = [] then getClientIP r else Get (Query r) ''myip'')"
    and valid: "isValidIP myip"
    and fetch: "GetDNSRecord cfClient c hostname = ((recordID, currentIP, None), c1)"
    and differs: "currentIP \<noteq> myip"
    and update: "UpdateDNSRecord cfClient c1 recordID hostname myip = (err, c2)"
  shows "calls out = [GetDNSRecord_call hostname, UpdateDNSRecord_call recordID hostname myip]
       \<and> filter is_write (calls out) = [UpdateDNSRecord_call recordID hostname myip]
       \<and> client out = c2
       \<and> (err = None \<longrightarrow> Body (response out) = ''good '' @ myip \<and> Code (response out) = 200)"
  unfolding out handle_fetched [OF auth hostname myip valid fetch update]
  using differs by (simp add: respond_NewRecorder status_defs split: option.splits)

theorem handleDynDNSUpdate_good_witness:
  "calls (handleDynDNSUpdate testConfig MockClient testMock NewRecorder (testRequest ''1.2.3.4''))
     = [GetDNSRecord_call ''test.example.com'',
        UpdateDNSRecord_call ''rec123'' ''test.example.com'' ''1.2.3.4'']
   \<and> Body (response (handleDynDNSUpdate testConfig MockClient testMock NewRecorder (testRequest ''1.2.3.4'')))
     = ''good 1.2.3.4''
   \<and> Code (response (handleDynDNSUpdate testConfig MockClient testMock NewRecorder (testRequest ''1.2.3.4''))) = 200
   \<and> Records (client (handleDynDNSUpdate testConfig MockClient testMock NewRecorder (testRequest ''1.2.3.4'')))
        ''test.example.com'' = Some ''1.2.3.4''"
proof -
  have auth: "BasicAuthUsername testConfig = [] \<or> BasicAuthPassword testConfig = []
      \<or> checkBasicAuth testConfig (testRequest ''1.2.3.4'')"
    by (simp add: testConfig_def)
  have hostname: "''test.example.com'' = Get (Query (testRequest ''1.2.3.4'')) ''hostname''"
    "''test.example.com'' \<noteq> []"
    by (simp_all add: test_defs)
  have myip: "''1.2.3.4'' = (if Get (Query (testRequest ''1.2.3.4'')) ''myip'' = []
      then getClientIP (testRequest ''1.2.3.4'') else Get (Query (testRequest ''1.2.3.4'')) ''myip'')"
    by (simp add: test_defs)
  have fetch: "GetDNSRecord MockClient testMock ''test.example.com''
      = ((''rec123'', ''1.1.1.1'', None), testMock)"
    by (simp add: test_defs)
  have differs: "''1.1.1.1'' \<noteq> ''1.2.3.4''" by simp
  have update: "UpdateDNSRecord MockClient testMock ''rec123'' ''test.example.com'' ''1.2.3.4''
      = (None, testMock\<lparr>UpdateCalled := True,
           Records := (Records testMock)(''test.example.com'' \<mapsto> ''1.2.3.4'')\<rparr>)"
    by (simp add: test_defs)
  from handleDynDNSUpdate_good [OF refl auth hostname myip isValidIP_examples(2) fetch differs update]
  show ?thesis by simp
qed

text \<open>
  C4. Once a request is past authentication and validation: a fetch that fails is
  answered \<open>911\<close> with status 500 and is the last call (no update is made); an
  update that fails is answered \<open>911\<close> with status 500 and is the last call. Every
  request, whatever it is, makes no call, or the fetch, or the fetch and then one update:
  at most one remote read and at most one remote write.
\<close>

theorem handleDynDNSUpdate_911:
  assumes out: "out = handleDynDNSUpdate config cfClient c NewRecorder r"
    and hostname: "hostname = Get (Query r) ''hostname''"
    and myip: "myip = (if Get (Query r) ''myip'' = [] then getClientIP r else Get (Query r) ''myip'')"
    and passes: "passes = ((BasicAuthUsername config = [] \<or> BasicAuthPassword config = []
                    \<or> checkBasicAuth config r) \<and> hostname \<noteq> [] \<and> isValidIP myip)"
    and fetch: "GetDNSRecord cfClient c hostname = ((recordID, currentIP, err), c1)"
    and update: "UpdateDNSRecord cfClient c1 recordID hostname myip = (err2, c2)"
  shows "(passes \<and> err \<noteq> None \<longrightarrow>
            Body (response out) = ''911'' \<and> Code (response out) = 500
            \<and> calls out = [GetDNSRecord_call hostname] \<and> client out = c1)
       \<and> (passes \<and> err = None \<and> currentIP \<noteq> myip \<and> err2 \<noteq> None \<longrightarrow>
            Body (response out) = ''911'' \<and> Code (response out) = 500
            \<and> calls out = [GetDNSRecord_call hostname, UpdateDNSRecord_call recordID hostname myip]
            \<and> client out = c2)
       \<and> (calls out = [] \<or> calls out = [GetDNSRecord_call hostname]
            \<or> calls out = [GetDNSRecord_call hostname, UpdateDNSRecord_call recordID hostname myip])
       \<and> length (filter is_read (calls out)) \<le> 1
       \<and> length (filter is_write (calls out)) \<le> 1"
proof -
  have cases: "calls out = [] \<or> calls out = [GetDNSRecord_call hostname]
      \<or> calls out = [GetDNSRecord_call hostname, UpdateDNSRecord_call recordID hostname myip]"
    unfolding out by (rule handle_calls [OF hostname myip fetch])
  then have counts: "length (filter is_read (calls out)) \<le> 1 \<and> length (filter is_write (calls out)) \<le> 1"
    by auto
  have get: "passes \<and> err \<noteq> None \<longrightarrow>
            Body (response out) = ''911'' \<and> Code (response out) = 500
            \<and> calls out = [GetDNSRecord_call hostname] \<and> client out = c1"
  proof
    assume a: "passes \<and> err \<noteq> None"
    then have auth: "BasicAuthUsername config = [] \<or> BasicAuthPassword config = [] \<or> checkBasicAuth config r"
      and nonempty: "hostname \<noteq> []" and valid: "isValidIP myip"
      using passes by blast+
    from a show "Body (response out) = ''911'' \<and> Code (response out) = 500
            \<and> calls out = [GetDNSRecord_call hostname] \<and> client out = c1"
      unfolding out handle_fetched [OF auth hostname nonempty myip valid fetch update]
      by (auto simp add: respond_NewRecorder status_defs)
  qed
  have upd: "passes \<and> err = None \<and> currentIP \<noteq> myip \<and> err2 \<noteq> None \<longrightarrow>
            Body (response out) = ''911'' \<and> Code (response out) = 500
            \<and> calls out = [GetDNSRecord_call hostname, UpdateDNSRecord_call recordID hostname myip]
            \<and> client out = c2"
  proof
    assume a: "passes \<and> err = None \<and> currentIP \<noteq> myip \<and> err2 \<noteq> None"
    then have auth: "BasicAuthUsername config = [] \<or> BasicAuthPassword config = [] \<or> checkBasicAuth config r"
      and nonempty: "hostname \<noteq> []" and valid: "isValidIP myip"
      using passes by blast+
    from a show "Body (response out) = ''911'' \<and> Code (response out) = 500
            \<and> calls out = [GetDNSRecord_call hostname, UpdateDNSRecord_call recordID hostname myip]
            \<and> client out = c2"
      unfolding out handle_fetched [OF auth hostname nonempty myip valid fetch update]
      by (auto simp add: respond_NewRecorder status_defs)
  qed
  from get upd cases counts show ?thesis by blast
qed

theorem handleDynDNSUpdate_911_witness:
  "(Body (response (handleDynDNSUpdate testConfig MockClient failingGetMock NewRecorder (testRequest ''1.2.3.4''))) = ''911''
    \<and> Code (response (handleDynDNSUpdate testConfig MockClient failingGetMock NewRecorder (testRequest ''1.2.3.4''))) = 500
    \<and> calls (handleDynDNSUpdate testConfig MockClient failingGetMock NewRecorder (testRequest ''1.2.3.4''))
        = [GetDNSRecord_call ''test.example.com''])
   \<and> (Body (response (handleDynDNSUpdate testConfig MockClient failingUpdateMock NewRecorder (testRequest ''1.2.3.4''))) = ''911''
    \<and> Code (response (handleDynDNSUpdate testConfig MockClient failingUpdateMock NewRecorder (testRequest ''1.2.3.4''))) = 500
    \<and> calls (handleDynDNSUpdate testConfig MockClient failingUpdateMock NewRecorder (testRequest ''1.2.3.4''))
        = [GetDNSRecord_call ''test.example.com'',
           UpdateDNSRecord_call ''rec123'' ''test.example.com'' ''1.2.3.4''])"
proof -
  have hostname: "''test.example.com'' = Get (Query (testRequest ''1.2.3.4'')) ''hostname''"
    by (simp add: test_defs)
  have myip: "''1.2.3.4'' = (if Get (Query (testRequest ''1.2.3.4'')) ''myip'' = []
      then getClientIP (testRequest ''1.2.3.4'') else Get (Query (testRequest ''1.2.3.4'')) ''myip'')"
    by (simp add: test_defs)
  have passes: "True = ((BasicAuthUsername testConfig = [] \<or> BasicAuthPassword testConfig = []
      \<or> checkBasicAuth testConfig (testRequest ''1.2.3.4'')) \<and> ''test.example.com'' \<noteq> []
      \<and> isValidIP ''1.2.3.4'')"
    by (simp add: testConfig_def isValidIP_examples)
  have fetch1: "GetDNSRecord MockClient failingGetMock ''test.example.com''
      = (([], [], Some (Errorf ''api error'')), failingGetMock)"
    by (simp add: test_defs failingGetMock_def)
  have update1: "UpdateDNSRecord MockClient failingGetMock [] ''test.example.com'' ''1.2.3.4''
      = (None, failingGetMock\<lparr>UpdateCalled := True,
           Records := (Records failingGetMock)(''test.example.com'' \<mapsto> ''1.2.3.4'')\<rparr>)"
    by (simp add: test_defs failingGetMock_def)
  have fetch2: "GetDNSRecord MockClient failingUpdateMock ''test.example.com''
      = ((''rec123'', ''1.1.1.1'', None), failingUpdateMock)"
    by (simp add: test_defs failingUpdateMock_def)
  have update2: "UpdateDNSRecord MockClient failingUpdateMock ''rec123'' ''test.example.com'' ''1.2.3.4''
      = (Some (Errorf ''update error''), failingUpdateMock\<lparr>UpdateCalled := True\<rparr>)"
    by (simp add: test_defs failingUpdateMock_def)
  from handleDynDNSUpdate_911 [OF refl hostname myip passes fetch1 update1]
    handleDynDNSUpdate_911 [OF refl hostname myip passes fetch2 update2]
  show ?thesis by simp
qed

text \<open>
  C7. A request that is past the authentication check and whose \<open>hostname\<close>
  parameter is missing or empty is answered \<open>notfqdn\<close> with status 400, whatever
  its other parameters, its headers and the client are, and no call is made to the
  client.
\<close>

theorem handleDynDNSUpdate_notfqdn:
  assumes out: "out = handleDynDNSUpdate config cfClient c NewRecorder r"
    and auth: "BasicAuthUsername config = [] \<or> BasicAuthPassword config = [] \<or> checkBasicAuth config r"
    and missing: "Query r ''hostname'' = None \<or> Query r ''hostname'' = Some []
        \<or> (\<exists>rest. Query r ''hostname'' = Some ([] # rest))"
  shows "Body (response out) = ''notfqdn'' \<and> Code (response out) = 400
       \<and> calls out = [] \<and> client out = c"
proof -
  from missing have empty: "Get (Query r) ''hostname'' = []" by (simp add: Get_empty_iff)
  show ?thesis
    unfolding out handle_notfqdn [OF auth empty] by (simp add: respond_NewRecorder status_defs)
qed

theorem handleDynDNSUpdate_notfqdn_witness:
  "Body (response (handleDynDNSUpdate testConfig MockClient testMock NewRecorder
      \<lparr>Header = Map.empty, Query = [''myip'' \<mapsto> [''1.2.3.4'']], RemoteAddr = ''192.0.2.1:1234''\<rparr>))
     = ''notfqdn''
   \<and> Code (response (handleDynDNSUpdate testConfig MockClient testMock NewRecorder
      \<lparr>Header = Map.empty, Query = [''myip'' \<mapsto> [''1.2.3.4'']], RemoteAddr = ''192.0.2.1:1234''\<rparr>)) = 400
   \<and> calls (handleDynDNSUpdate testConfig MockClient testMock NewRecorder
      \<lparr>Header = Map.empty, Query = [''myip'' \<mapsto> [''1.2.3.4'']], RemoteAddr = ''192.0.2.1:1234''\<rparr>) = []
   \<and> Body (response (handleDynDNSUpdate testConfig MockClient testMock NewRecorder
      \<lparr>Header = Map.empty, Query = [''hostname'' \<mapsto> [[]], ''myip'' \<mapsto> [''invalid'']], RemoteAddr = []\<rparr>))
     = ''notfqdn''"
proof -
  have auth: "BasicAuthUsername testConfig = [] \<or> BasicAuthPassword testConfig = []
      \<or> checkBasicAuth testConfig r" for r
    by (simp add: testConfig_def)
  have missing1: "Query \<lparr>Header = Map.empty, Query = [''myip'' \<mapsto> [''1.2.3.4'']], RemoteAddr = ''192.0.2.1:1234''\<rparr> ''hostname'' = None
     \<or> Query \<lparr>Header = Map.empty, Query = [''myip'' \<mapsto> [''1.2.3.4'']], RemoteAddr = ''192.0.2.1:1234''\<rparr> ''hostname'' = Some []
     \<or> (\<exists>rest. Query \<lparr>Header = Map.empty, Query = [''myip'' \<mapsto> [''1.2.3.4'']], RemoteAddr = ''192.0.2.1:1234''\<rparr> ''hostname'' = Some ([] # rest))"
    by simp
  have missing2: "Query \<lparr>Header = Map.empty, Query = [''hostname'' \<mapsto> [[]], ''myip'' \<mapsto> [''invalid'']], RemoteAddr = []\<rparr> ''hostname'' = None
     \<or> Query \<lparr>Header = Map.empty, Query = [''hostname'' \<mapsto> [[]], ''myip'' \<mapsto> [''invalid'']], RemoteAddr = []\<rparr> ''hostname'' = Some []
     \<or> (\<exists>rest. Query \<lparr>Header = Map.empty, Query = [''hostname'' \<mapsto> [[]], ''myip'' \<mapsto> [''invalid'']], RemoteAddr = []\<rparr> ''hostname'' = Some ([] # rest))"
    by simp
  from handleDynDNSUpdate_notfqdn [OF refl auth missing1, of MockClient testMock]
    handleDynDNSUpdate_notfqdn [OF refl auth missing2, of MockClient testMock]
  show ?thesis by simp
qed

text \<open>
  C5, as the specification words it: a string is accepted exactly when it decomposes into
  four non-empty dot-separated segments or contains a colon. The source decides a string
  of four segments by its segments alone, so \<open>1:2..3.4\<close>, which has an empty segment
  and a colon, is refused.
\<close>

theorem isValidIP_colon_counterexample:
  "\<not> (isValidIP ''1:2..3.4'' =
        ((\<exists>a b c d. fourSegments ''1:2..3.4'' a b c d \<and> a \<noteq> [] \<and> b \<noteq> [] \<and> c \<noteq> [] \<and> d \<noteq> [])
         \<or> CHR '':'' \<in> set ''1:2..3.4''))"
  by (simp add: isValidIP_def)

text \<open>
  C5, amended. The validator accepts a string exactly when it decomposes into four
  dot-separated segments that are all non-empty, or it does not decompose into four
  dot-separated segments and contains a colon. A request past the authentication check and
  with a hostname, whose supplied or derived address the validator refuses, is answered
  \<open>badip\<close> with status 400, and no call is made to the client.
\<close>

theorem isValidIP_badip:
  "(isValidIP ip =
     ((\<exists>a b c d. fourSegments ip a b c d \<and> a \<noteq> [] \<and> b \<noteq> [] \<and> c \<noteq> [] \<and> d \<noteq> [])
      \<or> ((\<nexists>a b c d. fourSegments ip a b c d) \<and> CHR '':'' \<in> set ip)))
   \<and> ((BasicAuthUsername config = [] \<or> BasicAuthPassword config = [] \<or> checkBasicAuth config r)
        \<and> Get (Query r) ''hostname'' \<noteq> []
        \<and> myip = (if Get (Query r) ''myip'' = [] then getClientIP r else Get (Query r) ''myip'')
        \<and> \<not> isValidIP myip \<longrightarrow>
        Body (response (handleDynDNSUpdate config cfClient c NewRecorder r)) = ''badip''
        \<and> Code (response (handleDynDNSUpdate config cfClient c NewRecorder r)) = 400
        \<and> calls (handleDynDNSUpdate config cfClient c NewRecorder r) = []
        \<and> client (handleDynDNSUpdate config cfClient c NewRecorder r) = c)"
proof (intro conjI impI)
  show "isValidIP ip =
     ((\<exists>a b c d. fourSegments ip a b c d \<and> a \<noteq> [] \<and> b \<noteq> [] \<and> c \<noteq> [] \<and> d \<noteq> [])
      \<or> ((\<nexists>a b c d. fourSegments ip a b c d) \<and> CHR '':'' \<in> set ip))"
    by (rule isValidIP_iff)
next
  assume a: "(BasicAuthUsername config = [] \<or> BasicAuthPassword config = [] \<or> checkBasicAuth config r)
        \<and> Get (Query r) ''hostname'' \<noteq> []
        \<and> myip = (if Get (Query r) ''myip'' = [] then getClientIP r else Get (Query r) ''myip'')
        \<and> \<not> isValidIP myip"
  then have auth: "BasicAuthUsername config = [] \<or> BasicAuthPassword config = [] \<or> checkBasicAuth config r"
    and hostname: "Get (Query r) ''hostname'' \<noteq> []"
    and myip: "myip = (if Get (Query r) ''myip'' = [] then getClientIP r else Get (Query r) ''myip'')"
    and invalid: "\<not> isValidIP myip"
    by blast+
  note eq = handle_badip [OF auth hostname myip invalid]
  show "Body (response (handleDynDNSUpdate config cfClient c NewRecorder r)) = ''badip''"
    unfolding eq by (simp add: respond_NewRecorder)
  show "Code (response (handleDynDNSUpdate config cfClient c NewRecorder r)) = 400"
    unfolding eq by (simp add: respond_NewRecorder status_defs)
  show "calls (handleDynDNSUpdate config cfClient c NewRecorder r) = []"
    unfolding eq by simp
  show "client (handleDynDNSUpdate config cfClient c NewRecorder r) = c"
    unfolding eq by simp
qed

theorem isValidIP_badip_witness:
  "isValidIP ''192.168.1.1''
   \<and> (\<exists>a b c d. fourSegments ''192.168.1.1'' a b c d \<and> a \<noteq> [] \<and> b \<noteq> [] \<and> c \<noteq> [] \<and> d \<noteq> [])
   \<and> \<not> isValidIP ''invalid''
   \<and> Body (response (handleDynDNSUpdate testConfig MockClient testMock NewRecorder (testRequest ''invalid'')))
       = ''badip''
   \<and> Code (response (handleDynDNSUpdate testConfig MockClient testMock NewRecorder (testRequest ''invalid''))) = 400
   \<and> calls (handleDynDNSUpdate testConfig MockClient testMock NewRecorder (testRequest ''invalid'')) = []"
proof -
  have valid: "isValidIP ''192.168.1.1''" and nocolon: "CHR '':'' \<notin> set ''192.168.1.1''"
    by (simp_all add: isValidIP_def)
  have invalid: "\<not> isValidIP ''invalid''"
    by (simp add: isValidIP_def Contains_def)
  have passed: "(BasicAuthUsername testConfig = [] \<or> BasicAuthPassword testConfig = []
        \<or> checkBasicAuth testConfig (testRequest ''invalid''))
      \<and> Get (Query (testRequest ''invalid'')) ''hostname'' \<noteq> []
      \<and> ''invalid'' = (if Get (Query (testRequest ''invalid'')) ''myip'' = []
           then getClientIP (testRequest ''invalid'') else Get (Query (testRequest ''invalid'')) ''myip'')
      \<and> \<not> isValidIP ''invalid''"
    using invalid by (simp add: test_defs)
  from isValidIP_badip [of "''192.168.1.1''" testConfig "testRequest ''invalid''" "''invalid''"
      MockClient testMock] valid nocolon invalid passed
  show ?thesis by blast
qed

text \<open>
  C6. The address derived from the caller's origin is, in this order: the first
  comma-separated entry of the header \<open>X-Forwarded-For\<close> without the white space
  around it, when that header is not empty; else the header \<open>X-Real-IP\<close> as it is,
  when it is not empty; else the peer address without its port suffix (cut at its last
  colon, and whole when it has no colon). A request that supplies no address is handled
  as if it had supplied the derived one.
\<close>

theorem getClientIP_priority:
  assumes forwarded: "forwarded = Get (Header r) ''X-Forwarded-For''"
    and realIP: "realIP = Get (Header r) ''X-Real-IP''"
  shows "(forwarded \<noteq> [] \<longrightarrow>
            getClientIP r = TrimSpace (takeWhile (\<lambda>x. x \<noteq> CHR '','') forwarded))
       \<and> (forwarded = [] \<and> realIP \<noteq> [] \<longrightarrow> getClientIP r = realIP)
       \<and> (forwarded = [] \<and> realIP = [] \<longrightarrow>
            (\<forall>host port. RemoteAddr r = host @ '':'' @ port \<and> CHR '':'' \<notin> set port \<longrightarrow>
               getClientIP r = host)
            \<and> (CHR '':'' \<notin> set (RemoteAddr r) \<longrightarrow> getClientIP r = RemoteAddr r))
       \<and> (Get (Query r) ''myip'' = [] \<longrightarrow>
            handleDynDNSUpdate config cfClient c w r =
            handleDynDNSUpdate config cfClient c w
              (r\<lparr>Query := (Query r)(''myip'' \<mapsto> [getClientIP r])\<rparr>))"
proof (intro conjI impI allI)
  assume "forwarded \<noteq> []"
  then show "getClientIP r = TrimSpace (takeWhile (\<lambda>x. x \<noteq> CHR '','') forwarded)"
    unfolding forwarded by (simp add: getClientIP_def hd_Split)
next
  assume "forwarded = [] \<and> realIP \<noteq> []"
  then show "getClientIP r = realIP"
    unfolding forwarded realIP by (simp add: getClientIP_def)
next
  fix host port
  assume "forwarded = [] \<and> realIP = []" and "RemoteAddr r = host @ '':'' @ port \<and> CHR '':'' \<notin> set port"
  then show "getClientIP r = host"
    unfolding forwarded realIP using getClientIP_RemoteAddr(1) by blast
next
  assume "forwarded = [] \<and> realIP = []" and "CHR '':'' \<notin> set (RemoteAddr r)"
  then show "getClientIP r = RemoteAddr r"
    unfolding forwarded realIP using getClientIP_RemoteAddr(2) by blast
next
  assume "Get (Query r) ''myip'' = []"
  then show "handleDynDNSUpdate config cfClient c w r =
            handleDynDNSUpdate config cfClient c w
              (r\<lparr>Query := (Query r)(''myip'' \<mapsto> [getClientIP r])\<rparr>)"
    by (rule handle_derived)
qed

theorem getClientIP_priority_witness:
  "getClientIP (originRequest ''10.0.0.1, 10.0.0.2'' ''10.0.0.3'' ''192.168.1.1:12345'') = ''10.0.0.1''
   \<and> getClientIP (originRequest '' 10.0.0.1 , 10.0.0.2'' ''10.0.0.3'' ''192.168.1.1:12345'') = ''10.0.0.1''
   \<and> getClientIP (originRequest [] ''10.0.0.3'' ''192.168.1.1:12345'') = ''10.0.0.3''
   \<and> getClientIP (originRequest [] [] ''192.168.1.1:12345'') = ''192.168.1.1''
   \<and> getClientIP (originRequest [] [] ''localhost'') = ''localhost''
   \<and> Body (response (handleDynDNSUpdate testConfig MockClient testMock NewRecorder
         (originRequest [] [] ''192.168.1.1:12345''))) = ''good 192.168.1.1''"
proof -
  have trim1: "TrimSpace ''10.0.0.1'' = ''10.0.0.1''"
    by (simp add: TrimSpace_def spaceRunes_def leadingSpace_def HasPrefix_def)
  have trim2: "TrimSpace '' 10.0.0.1 '' = ''10.0.0.1''"
    by (simp add: TrimSpace_def spaceRunes_def leadingSpace_def HasPrefix_def)
  note trim = trim1 trim2
  have addr: "RemoteAddr (originRequest [] [] ''192.168.1.1:12345'') = ''192.168.1.1'' @ '':'' @ ''12345''
      \<and> CHR '':'' \<notin> set ''12345''"
    by (simp add: originRequest_def)
  have noaddr: "Get (Query (originRequest [] [] ''192.168.1.1:12345'')) ''myip'' = []"
    by (simp add: originRequest_def Get_def)
  have supplied: "(originRequest [] [] ''192.168.1.1:12345'')
       \<lparr>Query := (Query (originRequest [] [] ''192.168.1.1:12345''))(''myip'' \<mapsto> [''192.168.1.1''])\<rparr>
     = \<lparr>Header = [''X-Forwarded-For'' \<mapsto> [[]], ''X-Real-IP'' \<mapsto> [[]]],
        Query = [''hostname'' \<mapsto> [''test.example.com''], ''myip'' \<mapsto> [''192.168.1.1'']],
        RemoteAddr = ''192.168.1.1:12345''\<rparr>"
    by (simp add: originRequest_def)
  have good: "Body (response (handleDynDNSUpdate testConfig MockClient testMock NewRecorder
       \<lparr>Header = [''X-Forwarded-For'' \<mapsto> [[]], ''X-Real-IP'' \<mapsto> [[]]],
        Query = [''hostname'' \<mapsto> [''test.example.com''], ''myip'' \<mapsto> [''192.168.1.1'']],
        RemoteAddr = ''192.168.1.1:12345''\<rparr>)) = ''good 192.168.1.1''"
    by (simp add: handleDynDNSUpdate_def test_defs isValidIP_def respond_NewRecorder status_defs Let_def)
  note t = getClientIP_priority [OF refl refl, where config = testConfig and cfClient = MockClient
      and c = testMock and w = NewRecorder]
  from t [of "originRequest ''10.0.0.1, 10.0.0.2'' ''10.0.0.3'' ''192.168.1.1:12345''"]
  have 1: "getClientIP (originRequest ''10.0.0.1, 10.0.0.2'' ''10.0.0.3'' ''192.168.1.1:12345'') = ''10.0.0.1''"
    by (simp add: originRequest_def Get_def trim)
  from t [of "originRequest '' 10.0.0.1 , 10.0.0.2'' ''10.0.0.3'' ''192.168.1.1:12345''"]
  have 2: "getClientIP (originRequest '' 10.0.0.1 , 10.0.0.2'' ''10.0.0.3'' ''192.168.1.1:12345'') = ''10.0.0.1''"
    by (simp add: originRequest_def Get_def trim)
  from t [of "originRequest [] ''10.0.0.3'' ''192.168.1.1:12345''"]
  have 3: "getClientIP (originRequest [] ''10.0.0.3'' ''192.168.1.1:12345'') = ''10.0.0.3''"
    by (simp add: originRequest_def Get_def)
  from t [of "originRequest [] [] ''192.168.1.1:12345''"]
  have "\<forall>host port. RemoteAddr (originRequest [] [] ''192.168.1.1:12345'') = host @ '':'' @ port
      \<and> CHR '':'' \<notin> set port \<longrightarrow> getClientIP (originRequest [] [] ''192.168.1.1:12345'') = host"
    by (simp add: originRequest_def Get_def)
  with addr have 4: "getClientIP (originRequest [] [] ''192.168.1.1:12345'') = ''192.168.1.1''"
    by blast
  from t [of "originRequest [] [] ''localhost''"]
  have 5: "getClientIP (originRequest [] [] ''localhost'') = ''localhost''"
    by (simp add: originRequest_def Get_def)
  from t [of "originRequest [] [] ''192.168.1.1:12345''"] noaddr
  have 6: "Body (response (handleDynDNSUpdate testConfig MockClient testMock NewRecorder
         (originRequest [] [] ''192.168.1.1:12345''))) = ''good 192.168.1.1''"
    unfolding 4 supplied by (simp add: good)
  from 1 2 3 4 5 6 show ?thesis by blast
qed

text \<open>
  C9. Without forwarding headers the derived address is the peer address cut at its last
  colon, whenever it has one. For an IPv6 peer address without brackets and port (at least
  two colons, and dots, if any, only in the group after the last colon), what stands
  before the last colon still has a colon and passes the validator; a request that is past
  the authentication check, has a hostname and supplies no address is handled as if it had
  supplied it: it reaches the fetch, and the log line before it names it. The peer
  address \<open>::1\<close> gives \<open>:\<close>.
\<close>

theorem getClientIP_last_colon:
  assumes forwarded: "Get (Header r) ''X-Forwarded-For'' = []"
    and realIP: "Get (Header r) ''X-Real-IP'' = []"
    and addr: "RemoteAddr r = pre @ '':'' @ after" and after: "CHR '':'' \<notin> set after"
  shows "getClientIP r = pre
       \<and> (CHR '':'' \<in> set pre \<and> CHR ''.'' \<notin> set pre \<longrightarrow>
            CHR '':'' \<in> set (getClientIP r) \<and> isValidIP (getClientIP r)
            \<and> ((BasicAuthUsername config = [] \<or> BasicAuthPassword config = []
                   \<or> checkBasicAuth config r)
                \<and> Get (Query r) ''hostname'' \<noteq> [] \<and> Get (Query r) ''myip'' = [] \<longrightarrow>
                handleDynDNSUpdate config cfClient c w r =
                  handleDynDNSUpdate config cfClient c w (r\<lparr>Query := (Query r)(''myip'' \<mapsto> [pre])\<rparr>)
                \<and> take 1 (calls (handleDynDNSUpdate config cfClient c w r))
                    = [GetDNSRecord_call (Get (Query r) ''hostname'')]
                \<and> take 1 (logged (handleDynDNSUpdate config cfClient c w r))
                    = [''Updating DNS record: hostname='' @ Get (Query r) ''hostname''
                        @ '', ip='' @ pre]))"
proof -
  have ip: "getClientIP r = pre"
    using getClientIP_RemoteAddr(1) [OF forwarded realIP addr after] .
  have rest: "CHR '':'' \<in> set (getClientIP r) \<and> isValidIP (getClientIP r)
            \<and> ((BasicAuthUsername config = [] \<or> BasicAuthPassword config = []
                   \<or> checkBasicAuth config r)
                \<and> Get (Query r) ''hostname'' \<noteq> [] \<and> Get (Query r) ''myip'' = [] \<longrightarrow>
                handleDynDNSUpdate config cfClient c w r =
                  handleDynDNSUpdate config cfClient c w (r\<lparr>Query := (Query r)(''myip'' \<mapsto> [pre])\<rparr>)
                \<and> take 1 (calls (handleDynDNSUpdate config cfClient c w r))
                    = [GetDNSRecord_call (Get (Query r) ''hostname'')]
                \<and> take 1 (logged (handleDynDNSUpdate config cfClient c w r))
                    = [''Updating DNS record: hostname='' @ Get (Query r) ''hostname''
                        @ '', ip='' @ pre])"
    if colon: "CHR '':'' \<in> set pre" and nodot: "CHR ''.'' \<notin> set pre"
  proof (intro conjI impI)
    show "CHR '':'' \<in> set (getClientIP r)" unfolding ip by (rule colon)
    have "Split pre CHR ''.'' = [pre]" using nodot by (rule Split_no_sep)
    then show valid: "isValidIP (getClientIP r)"
      unfolding ip using colon by (simp add: isValidIP_def Contains_def)
    assume passed: "(BasicAuthUsername config = [] \<or> BasicAuthPassword config = []
          \<or> checkBasicAuth config r)
        \<and> Get (Query r) ''hostname'' \<noteq> [] \<and> Get (Query r) ''myip'' = []"
    then have myip: "pre = (if Get (Query r) ''myip'' = [] then getClientIP r else Get (Query r) ''myip'')"
      unfolding ip by simp
    from passed show "handleDynDNSUpdate config cfClient c w r =
        handleDynDNSUpdate config cfClient c w (r\<lparr>Query := (Query r)(''myip'' \<mapsto> [pre])\<rparr>)"
      using handle_derived [of r config cfClient c w] unfolding ip by blast
    from passed valid handle_past_validation [OF _ refl _ myip, of config cfClient c w]
    show "take 1 (calls (handleDynDNSUpdate config cfClient c w r))
        = [GetDNSRecord_call (Get (Query r) ''hostname'')]"
      and "take 1 (logged (handleDynDNSUpdate config cfClient c w r))
        = [''Updating DNS record: hostname='' @ Get (Query r) ''hostname'' @ '', ip='' @ pre]"
      unfolding ip by blast+
  qed
  from ip rest show ?thesis by blast
qed

theorem getClientIP_last_colon_witness:
  "getClientIP loopbackRequest = '':''
   \<and> isValidIP '':''
   \<and> take 1 (logged (handleDynDNSUpdate testConfig MockClient testMock NewRecorder loopbackRequest))
      = [''Updating DNS record: hostname=test.example.com, ip=:'']
   \<and> getClientIP (loopbackRequest\<lparr>RemoteAddr := ''2001:db8::7''\<rparr>) = ''2001:db8:''
   \<and> getClientIP (loopbackRequest\<lparr>RemoteAddr := ''192.168.1.1:12345''\<rparr>) = ''192.168.1.1''"
proof -
  have headers: "Get (Header (loopbackRequest\<lparr>RemoteAddr := a\<rparr>)) ''X-Forwarded-For'' = []"
    "Get (Header (loopbackRequest\<lparr>RemoteAddr := a\<rparr>)) ''X-Real-IP'' = []" for a
    by (simp_all add: loopbackRequest_def Get_def)
  have same: "loopbackRequest\<lparr>RemoteAddr := ''::1''\<rparr> = loopbackRequest"
    by (simp add: loopbackRequest_def)
  have addr1: "RemoteAddr (loopbackRequest\<lparr>RemoteAddr := ''::1''\<rparr>) = '':'' @ '':'' @ ''1''"
    and addr2: "RemoteAddr (loopbackRequest\<lparr>RemoteAddr := ''2001:db8::7''\<rparr>) = ''2001:db8:'' @ '':'' @ ''7''"
    and addr3: "RemoteAddr (loopbackRequest\<lparr>RemoteAddr := ''192.168.1.1:12345''\<rparr>)
        = ''192.168.1.1'' @ '':'' @ ''12345''"
    by simp_all
  have passed: "(BasicAuthUsername testConfig = [] \<or> BasicAuthPassword testConfig = []
        \<or> checkBasicAuth testConfig loopbackRequest)
      \<and> Get (Query loopbackRequest) ''hostname'' \<noteq> [] \<and> Get (Query loopbackRequest) ''myip'' = []"
    by (simp add: testConfig_def loopbackRequest_def Get_def)
  have hostname: "Get (Query loopbackRequest) ''hostname'' = ''test.example.com''"
    by (simp add: loopbackRequest_def Get_def)
  have after: "CHR '':'' \<notin> set ''1''" and pre: "CHR '':'' \<in> set '':'' \<and> CHR ''.'' \<notin> set '':''"
    by simp_all
  have "getClientIP loopbackRequest = '':''
     \<and> isValidIP (getClientIP loopbackRequest)
     \<and> take 1 (logged (handleDynDNSUpdate testConfig MockClient testMock NewRecorder loopbackRequest))
        = [''Updating DNS record: hostname='' @ Get (Query loopbackRequest) ''hostname''
            @ '', ip='' @ '':'']"
    using getClientIP_last_colon [OF headers addr1 after, of testConfig MockClient testMock NewRecorder,
        unfolded same] pre passed
    by blast
  then have 1: "getClientIP loopbackRequest = '':''
     \<and> isValidIP '':''
     \<and> take 1 (logged (handleDynDNSUpdate testConfig MockClient testMock NewRecorder loopbackRequest))
        = [''Updating DNS record: hostname=test.example.com, ip=:'']"
    unfolding hostname by (elim conjE) simp
  have after2: "CHR '':'' \<notin> set ''7''" and after3: "CHR '':'' \<notin> set ''12345''"
    by simp_all
  have 2: "getClientIP (loopbackRequest\<lparr>RemoteAddr := ''2001:db8::7''\<rparr>) = ''2001:db8:''"
    by (rule getClientIP_last_colon [OF headers addr2 after2,
          of testConfig MockClient testMock NewRecorder, THEN conjunct1])
  have 3: "getClientIP (loopbackRequest\<lparr>RemoteAddr := ''192.168.1.1:12345''\<rparr>) = ''192.168.1.1''"
    by (rule getClientIP_last_colon [OF headers addr3 after3,
          of testConfig MockClient testMock NewRecorder, THEN conjunct1])
  from 1 2 3 show ?thesis by blast
qed

section \<open>The fetch of the real client\<close>

text \<open>
  C8, as the specification words it: the fetch fails with the not-found error whenever
  the provider returns no record. The source tests the success flag first, so the
  provider's failure envelope, which carries no record, gives the provider error.
\<close>

theorem GetDNSRecord_zero_records_counterexample:
  "Result failureEnvelope = []
   \<and> RealCloudflareClient_GetDNSRecord testRealClient (\<lambda>req. Inr failureEnvelope) ''test.example.com''
       = ([], [], Some (Errorf ''cloudflare API error: Authentication error''))
   \<and> RealCloudflareClient_GetDNSRecord testRealClient (\<lambda>req. Inr failureEnvelope) ''test.example.com''
       \<noteq> ([], [], Some (notFoundError ''test.example.com''))"
  by (simp add: RealCloudflareClient_GetDNSRecord_def failureEnvelope_def notFoundError_def)

text \<open>
  C8, amended. When the provider answers with an envelope, the fetch fails with a
  provider error if the success flag is false, whatever the result list is; with the flag
  true it fails with the not-found error if the list is empty, and else returns the id and
  the content of the first record of the list, whatever follows it.
\<close>

theorem GetDNSRecord_envelope:
  assumes "exchange
      \<lparr>Method = ''GET'',
       URL = ''https://api.cloudflare.com/client/v4/zones/'' @ ZoneID c @ ''/dns_records?name='' @ hostname,
       RequestHeader = [(''Authorization'', ''Bearer '' @ APIToken c),
                        (''Content-Type'', ''application/json'')]\<rparr> = Inr cfResp"
  shows "(\<not> Success cfResp \<longrightarrow>
            RealCloudflareClient_GetDNSRecord c exchange hostname = ([], [], Some (providerError cfResp)))
       \<and> (Success cfResp \<and> Result cfResp = [] \<longrightarrow>
            RealCloudflareClient_GetDNSRecord c exchange hostname = ([], [], Some (notFoundError hostname)))
       \<and> (\<forall>record others. Success cfResp \<and> Result cfResp = record # others \<longrightarrow>
            RealCloudflareClient_GetDNSRecord c exchange hostname = (ID record, Content record, None))"
  using assms
  by (auto simp add: RealCloudflareClient_GetDNSRecord_def providerError_def notFoundError_def
      split: list.splits)

theorem GetDNSRecord_envelope_witness:
  "RealCloudflareClient_GetDNSRecord testRealClient (\<lambda>req. Inr failureEnvelope) ''test.example.com''
     = ([], [], Some (Errorf ''cloudflare API error: Authentication error''))
   \<and> RealCloudflareClient_GetDNSRecord testRealClient
       (\<lambda>req. Inr (twoRecords\<lparr>Result := []\<rparr>)) ''test.example.com''
     = ([], [], Some (Errorf ''DNS record not found: test.example.com''))
   \<and> RealCloudflareClient_GetDNSRecord testRealClient (\<lambda>req. Inr twoRecords) ''test.example.com''
     = (''rec123'', ''1.1.1.1'', None)"
proof -
  have 1: "\<not> Success failureEnvelope" by (simp add: failureEnvelope_def)
  have 2: "Success (twoRecords\<lparr>Result := []\<rparr>) \<and> Result (twoRecords\<lparr>Result := []\<rparr>) = []"
    by (simp add: twoRecords_def)
  have 3: "Success twoRecords \<and> Result twoRecords =
      \<lparr>ID = ''rec123'', Type = ''A'', Name = ''test.example.com'', Content = ''1.1.1.1'',
                 TTL = 1, Proxied = False\<rparr> #
      [\<lparr>ID = ''rec456'', Type = ''AAAA'', Name = ''test.example.com'', Content = ''2001:db8::1'',
                 TTL = 1, Proxied = False\<rparr>]"
    by (simp add: twoRecords_def)
  have a: "RealCloudflareClient_GetDNSRecord testRealClient (\<lambda>req. Inr failureEnvelope) ''test.example.com''
     = ([], [], Some (providerError failureEnvelope))"
    using GetDNSRecord_envelope [of "\<lambda>req. Inr failureEnvelope" testRealClient "''test.example.com''"
        failureEnvelope, OF refl] 1 by blast
  have b: "RealCloudflareClient_GetDNSRecord testRealClient
       (\<lambda>req. Inr (twoRecords\<lparr>Result := []\<rparr>)) ''test.example.com''
     = ([], [], Some (notFoundError ''test.example.com''))"
    using GetDNSRecord_envelope [of "\<lambda>req. Inr (twoRecords\<lparr>Result := []\<rparr>)" testRealClient
        "''test.example.com''" "twoRecords\<lparr>Result := []\<rparr>", OF refl] 2 by blast
  have c: "RealCloudflareClient_GetDNSRecord testRealClient (\<lambda>req. Inr twoRecords) ''test.example.com''
     = (ID \<lparr>ID = ''rec123'', Type = ''A'', Name = ''test.example.com'', Content = ''1.1.1.1'',
                 TTL = 1, Proxied = False\<rparr>,
        Content \<lparr>ID = ''rec123'', Type = ''A'', Name = ''test.example.com'', Content = ''1.1.1.1'',
                 TTL = 1, Proxied = False\<rparr>, None)"
    using GetDNSRecord_envelope [of "\<lambda>req. Inr twoRecords" testRealClient
        "''test.example.com''" twoRecords, OF refl] 3 by blast
  from a b c show ?thesis
    by (simp add: providerError_def notFoundError_def failureEnvelope_def)
qed

section \<open>Authentication\<close>

text \<open>
  C3. When the configured username and password are both non-empty, a request whose
  credentials are absent (no \<open>Authorization\<close> header), malformed (no \<open>Basic\<close>
  scheme, a payload that is not base64, decoded credentials without a colon) or
  mismatched (a username or a password that is not the configured one, compared as
  strings) is answered \<open>badauth\<close> with status 401 and the \<open>WWW-Authenticate\<close>
  header, and no call is made to the client. When one of the two is empty there is no
  authentication: no request is answered 401 or \<open>badauth\<close>, and the
  \<open>Authorization\<close> header changes nothing. So some request is answered 401 exactly
  when both are non-empty.
\<close>

theorem basic_auth_enforced:
  assumes out: "out = handleDynDNSUpdate config cfClient c NewRecorder r"
    and auth: "auth = Get (Header r) ''Authorization''"
    and absent: "absent = (auth = [])"
    and malformed: "malformed =
          (\<not> HasPrefix auth ''Basic ''
           \<or> (\<exists>err. DecodeString (drop (length ''Basic '') auth) = Inl err)
           \<or> (\<exists>credentials. DecodeString (drop (length ''Basic '') auth) = Inr credentials
                \<and> CHR '':'' \<notin> set credentials))"
    and mismatched: "mismatched =
          (\<exists>user pass. DecodeString (drop (length ''Basic '') auth) = Inr (user @ '':'' @ pass)
             \<and> CHR '':'' \<notin> set user
             \<and> (user \<noteq> BasicAuthUsername config \<or> pass \<noteq> BasicAuthPassword config))"
  shows "(BasicAuthUsername config \<noteq> [] \<and> BasicAuthPassword config \<noteq> []
          \<and> (absent \<or> malformed \<or> mismatched) \<longrightarrow>
            Body (response out) = ''badauth'' \<and> Code (response out) = 401
            \<and> HeaderMap (response out) ''WWW-Authenticate'' = Some [''Basic realm=\"DynDNS\"'']
            \<and> calls out = [] \<and> client out = c)
       \<and> (BasicAuthUsername config = [] \<or> BasicAuthPassword config = [] \<longrightarrow>
            Code (response out) \<noteq> 401 \<and> Body (response out) \<noteq> ''badauth''
            \<and> (\<forall>h. handleDynDNSUpdate config cfClient c NewRecorder
                     (r\<lparr>Header := (Header r)(''Authorization'' := h)\<rparr>) = out))
       \<and> ((\<exists>r'. Code (response (handleDynDNSUpdate config cfClient c NewRecorder r')) = 401)
            = (BasicAuthUsername config \<noteq> [] \<and> BasicAuthPassword config \<noteq> []))"
proof -
  have part1: "BasicAuthUsername config \<noteq> [] \<and> BasicAuthPassword config \<noteq> []
          \<and> (absent \<or> malformed \<or> mismatched) \<longrightarrow>
            Body (response out) = ''badauth'' \<and> Code (response out) = 401
            \<and> HeaderMap (response out) ''WWW-Authenticate'' = Some [''Basic realm=\"DynDNS\"'']
            \<and> calls out = [] \<and> client out = c"
  proof
  assume enforced: "BasicAuthUsername config \<noteq> [] \<and> BasicAuthPassword config \<noteq> []
      \<and> (absent \<or> malformed \<or> mismatched)"
  have "\<not> checkBasicAuth config r"
  proof
    assume "checkBasicAuth config r"
    then obtain payload where header: "auth = ''Basic '' @ payload"
      and decoded: "DecodeString payload
          = Inr (BasicAuthUsername config @ '':'' @ BasicAuthPassword config)"
      and user: "CHR '':'' \<notin> set (BasicAuthUsername config)"
      unfolding checkBasicAuth_iff auth by blast
    have payload: "drop (length ''Basic '') auth = payload" unfolding header by simp
    have "\<not> absent" unfolding absent header by simp
    moreover have "\<not> malformed"
      unfolding malformed payload decoded using header by (simp add: HasPrefix_iff)
    moreover have "\<not> mismatched"
    proof
      assume mismatched
      then have "\<exists>user pass. DecodeString payload = Inr (user @ '':'' @ pass)
             \<and> CHR '':'' \<notin> set user
             \<and> (user \<noteq> BasicAuthUsername config \<or> pass \<noteq> BasicAuthPassword config)"
        unfolding mismatched payload .
      then obtain user' pass'
        where decoded': "DecodeString payload = Inr (user' @ '':'' @ pass')"
          and user': "CHR '':'' \<notin> set user'"
          and differ: "user' \<noteq> BasicAuthUsername config \<or> pass' \<noteq> BasicAuthPassword config"
        by blast
      from decoded decoded' have "Inr (BasicAuthUsername config @ '':'' @ BasicAuthPassword config)
          = (Inr (user' @ '':'' @ pass') :: error + string)"
        by (rule trans [OF sym])
      then have "BasicAuthUsername config @ CHR '':'' # BasicAuthPassword config
          = user' @ CHR '':'' # pass'"
        by (simp only: sum.inject append_Cons append_Nil)
      from first_sep_unique [OF this user user'] differ show False by blast
    qed
    ultimately show False using enforced by blast
  qed
  with enforced show "Body (response out) = ''badauth'' \<and> Code (response out) = 401
            \<and> HeaderMap (response out) ''WWW-Authenticate'' = Some [''Basic realm=\"DynDNS\"'']
            \<and> calls out = [] \<and> client out = c"
    unfolding out using handle_unauthorized [of config r cfClient c] by blast
  qed
  have part2: "BasicAuthUsername config = [] \<or> BasicAuthPassword config = [] \<longrightarrow>
            Code (response out) \<noteq> 401 \<and> Body (response out) \<noteq> ''badauth''
            \<and> (\<forall>h. handleDynDNSUpdate config cfClient c NewRecorder
                     (r\<lparr>Header := (Header r)(''Authorization'' := h)\<rparr>) = out)"
  proof
  assume disabled: "BasicAuthUsername config = [] \<or> BasicAuthPassword config = []"
  then have "BasicAuthUsername config = [] \<or> BasicAuthPassword config = [] \<or> checkBasicAuth config r"
    by blast
  from handle_not_badauth [OF this]
  have "Code (response out) \<noteq> 401 \<and> Body (response out) \<noteq> ''badauth''"
    unfolding out .
  moreover have "\<forall>h. handleDynDNSUpdate config cfClient c NewRecorder
                     (r\<lparr>Header := (Header r)(''Authorization'' := h)\<rparr>) = out"
    unfolding out by (simp add: handle_Authorization [OF disabled])
  ultimately show "Code (response out) \<noteq> 401 \<and> Body (response out) \<noteq> ''badauth''
            \<and> (\<forall>h. handleDynDNSUpdate config cfClient c NewRecorder
                     (r\<lparr>Header := (Header r)(''Authorization'' := h)\<rparr>) = out)"
    by blast
  qed
  have part3: "(\<exists>r'. Code (response (handleDynDNSUpdate config cfClient c NewRecorder r')) = 401)
            = (BasicAuthUsername config \<noteq> [] \<and> BasicAuthPassword config \<noteq> [])"
  proof
    assume "\<exists>r'. Code (response (handleDynDNSUpdate config cfClient c NewRecorder r')) = 401"
    then obtain r' where "Code (response (handleDynDNSUpdate config cfClient c NewRecorder r')) = 401" ..
    with handle_not_badauth [of config r' cfClient c]
    show "BasicAuthUsername config \<noteq> [] \<and> BasicAuthPassword config \<noteq> []" by blast
  next
    assume both: "BasicAuthUsername config \<noteq> [] \<and> BasicAuthPassword config \<noteq> []"
    let ?r = "\<lparr>Header = Map.empty, Query = Map.empty, RemoteAddr = []\<rparr>"
    have "\<not> checkBasicAuth config ?r" by (simp add: checkBasicAuth_def Get_def)
    with both handle_unauthorized [of config ?r cfClient c]
    have "Code (response (handleDynDNSUpdate config cfClient c NewRecorder ?r)) = 401" by blast
    then show "\<exists>r'. Code (response (handleDynDNSUpdate config cfClient c NewRecorder r')) = 401" ..
  qed
  show ?thesis by (rule conjI [OF part1 conjI [OF part2 part3]])
qed

theorem basic_auth_enforced_witness:
  "(Body (response (handleDynDNSUpdate authConfig MockClient testMock NewRecorder (testRequest ''1.2.3.4'')))
      = ''badauth''
    \<and> Code (response (handleDynDNSUpdate authConfig MockClient testMock NewRecorder (testRequest ''1.2.3.4'')))
      = 401
    \<and> calls (handleDynDNSUpdate authConfig MockClient testMock NewRecorder (testRequest ''1.2.3.4'')) = [])
   \<and> Code (response (handleDynDNSUpdate authConfig MockClient testMock NewRecorder
        (authRequest ''Bearer token123''))) = 401
   \<and> Code (response (handleDynDNSUpdate authConfig MockClient testMock NewRecorder
        (authRequest ''Basic dGVzdHVzZXI6dGVzdHBhc3M''))) = 401
   \<and> Code (response (handleDynDNSUpdate authConfig MockClient testMock NewRecorder
        (authRequest ''Basic bm9jb2xvbg==''))) = 401
   \<and> Code (response (handleDynDNSUpdate authConfig MockClient testMock NewRecorder
        (authRequest ''Basic dGVzdHVzZXI6d3JvbmdwYXNz''))) = 401
   \<and> Code (response (handleDynDNSUpdate testConfig MockClient testMock NewRecorder
        (authRequest ''Bearer token123''))) \<noteq> 401"
proof -
  have both: "BasicAuthUsername authConfig \<noteq> [] \<and> BasicAuthPassword authConfig \<noteq> []"
    by (simp add: authConfig_def)
  have header: "Get (Header (authRequest h)) ''Authorization'' = h" for h
    by (simp add: authRequest_def Get_def)
  note guard = basic_auth_enforced [OF refl refl refl refl refl, THEN conjunct1, rule_format]
  have absent: "Get (Header (testRequest ''1.2.3.4'')) ''Authorization'' = []"
    by (simp add: testRequest_def Get_def)
  have 1: "Body (response (handleDynDNSUpdate authConfig MockClient testMock NewRecorder (testRequest ''1.2.3.4'')))
      = ''badauth''
    \<and> Code (response (handleDynDNSUpdate authConfig MockClient testMock NewRecorder (testRequest ''1.2.3.4'')))
      = 401
    \<and> calls (handleDynDNSUpdate authConfig MockClient testMock NewRecorder (testRequest ''1.2.3.4'')) = []"
    using guard [of authConfig "testRequest ''1.2.3.4''" MockClient testMock] both absent by blast
  have scheme: "\<not> HasPrefix (Get (Header (authRequest ''Bearer token123'')) ''Authorization'') ''Basic ''"
    unfolding header by (simp add: HasPrefix_def)
  have 2: "Code (response (handleDynDNSUpdate authConfig MockClient testMock NewRecorder
        (authRequest ''Bearer token123''))) = 401"
    using guard [of authConfig "authRequest ''Bearer token123''" MockClient testMock] both scheme by blast
  have corrupt: "\<exists>err. DecodeString (drop (length ''Basic '')
      (Get (Header (authRequest ''Basic dGVzdHVzZXI6dGVzdHBhc3M'')) ''Authorization'')) = Inl err"
    unfolding header by (simp add: DecodeString_examples)
  have 3: "Code (response (handleDynDNSUpdate authConfig MockClient testMock NewRecorder
        (authRequest ''Basic dGVzdHVzZXI6dGVzdHBhc3M''))) = 401"
    using guard [of authConfig "authRequest ''Basic dGVzdHVzZXI6dGVzdHBhc3M''" MockClient testMock]
      both corrupt by blast
  have nocolon: "\<exists>credentials. DecodeString (drop (length ''Basic '')
      (Get (Header (authRequest ''Basic bm9jb2xvbg=='')) ''Authorization'')) = Inr credentials
      \<and> CHR '':'' \<notin> set credentials"
    unfolding header by (simp add: DecodeString_examples)
  have 4: "Code (response (handleDynDNSUpdate authConfig MockClient testMock NewRecorder
        (authRequest ''Basic bm9jb2xvbg==''))) = 401"
    using guard [of authConfig "authRequest ''Basic bm9jb2xvbg==''" MockClient testMock]
      both nocolon by blast
  have "DecodeString (drop (length ''Basic '')
      (Get (Header (authRequest ''Basic dGVzdHVzZXI6d3JvbmdwYXNz'')) ''Authorization''))
        = Inr (''testuser'' @ '':'' @ ''wrongpass'')
      \<and> CHR '':'' \<notin> set ''testuser''
      \<and> (''testuser'' \<noteq> BasicAuthUsername authConfig \<or> ''wrongpass'' \<noteq> BasicAuthPassword authConfig)"
    unfolding header by (simp add: DecodeString_examples authConfig_def)
  then have wrong: "\<exists>user pass. DecodeString (drop (length ''Basic '')
      (Get (Header (authRequest ''Basic dGVzdHVzZXI6d3JvbmdwYXNz'')) ''Authorization''))
        = Inr (user @ '':'' @ pass)
      \<and> CHR '':'' \<notin> set user
      \<and> (user \<noteq> BasicAuthUsername authConfig \<or> pass \<noteq> BasicAuthPassword authConfig)"
    by blast
  have 5: "Code (response (handleDynDNSUpdate authConfig MockClient testMock NewRecorder
        (authRequest ''Basic dGVzdHVzZXI6d3JvbmdwYXNz''))) = 401"
    using guard [of authConfig "authRequest ''Basic dGVzdHVzZXI6d3JvbmdwYXNz''" MockClient testMock]
      both wrong by blast
  have none: "BasicAuthUsername testConfig = [] \<or> BasicAuthPassword testConfig = []"
    by (simp add: testConfig_def)
  have 6: "Code (response (handleDynDNSUpdate testConfig MockClient testMock NewRecorder
        (authRequest ''Bearer token123''))) \<noteq> 401"
    using basic_auth_enforced [OF refl refl refl refl refl, THEN conjunct2, THEN conjunct1, rule_format,
        of testConfig MockClient testMock "authRequest ''Bearer token123''"] none
    by blast
  from 1 2 3 4 5 6 show ?thesis by blast
qed

text \<open>
  C10, as the specification words it: whatever the configured password with colons is, the
  client that presents \<open>username:password\<close> is authenticated. The credentials are
  split at their first colon, so with the configured username \<open>a:b\<close> and password
  \<open>c:d\<close> the client that presents \<open>a:b:c:d\<close> is compared as user \<open>a\<close> and
  refused.
\<close>

theorem checkBasicAuth_colon_username_counterexample:
  "CHR '':'' \<in> set ''c:d''
   \<and> \<not> checkBasicAuth (colonConfig ''a:b'' ''c:d'')
        (authRequest (''Basic '' @ EncodeToString (''a:b'' @ '':'' @ ''c:d'')))"
  by (simp add: checkBasicAuth_iff colonConfig_def)

text \<open>
  C10, amended. The decoded credentials are split at their first colon only. So when the
  configured username has no colon, the client that presents the base64 encoding of
  \<open>username:password\<close> is authenticated, whatever colons the configured password
  has; credentials \<open>user:pass\<close> whose \<open>user\<close> has no colon are accepted exactly
  when \<open>user\<close> and \<open>pass\<close> are the configured username and password; and decoded
  credentials without any colon are refused.
\<close>

theorem checkBasicAuth_first_colon:
  assumes auth: "auth = Get (Header r) ''Authorization''"
  shows "(CHR '':'' \<notin> set (BasicAuthUsername config)
          \<and> auth = ''Basic '' @ EncodeToString (BasicAuthUsername config @ '':'' @ BasicAuthPassword config)
          \<longrightarrow> checkBasicAuth config r)
       \<and> (\<forall>payload user pass.
            auth = ''Basic '' @ payload \<and> DecodeString payload = Inr (user @ '':'' @ pass)
            \<and> CHR '':'' \<notin> set user \<longrightarrow>
            checkBasicAuth config r = (user = BasicAuthUsername config \<and> pass = BasicAuthPassword config))
       \<and> (\<forall>payload credentials.
            auth = ''Basic '' @ payload \<and> DecodeString payload = Inr credentials
            \<and> CHR '':'' \<notin> set credentials \<longrightarrow>
            \<not> checkBasicAuth config r)"
proof -
  have part1: "CHR '':'' \<notin> set (BasicAuthUsername config)
          \<and> auth = ''Basic '' @ EncodeToString (BasicAuthUsername config @ '':'' @ BasicAuthPassword config)
          \<longrightarrow> checkBasicAuth config r"
    unfolding checkBasicAuth_iff auth [symmetric]
    using DecodeString_EncodeToString [of "BasicAuthUsername config @ '':'' @ BasicAuthPassword config"]
    by blast
  have part2: "\<forall>payload user pass.
            auth = ''Basic '' @ payload \<and> DecodeString payload = Inr (user @ '':'' @ pass)
            \<and> CHR '':'' \<notin> set user \<longrightarrow>
            checkBasicAuth config r = (user = BasicAuthUsername config \<and> pass = BasicAuthPassword config)"
  proof (intro allI impI)
    fix payload user pass
    assume a: "auth = ''Basic '' @ payload \<and> DecodeString payload = Inr (user @ '':'' @ pass)
            \<and> CHR '':'' \<notin> set user"
    then have header: "Get (Header r) ''Authorization'' = ''Basic '' @ payload"
      and decoded: "DecodeString payload = Inr (user @ '':'' @ pass)"
      and user: "CHR '':'' \<notin> set user"
      unfolding auth by blast+
    have "checkBasicAuth config r =
        (Inr (user @ '':'' @ pass) = (Inr (BasicAuthUsername config @ '':'' @ BasicAuthPassword config) :: error + string)
         \<and> CHR '':'' \<notin> set (BasicAuthUsername config))"
      unfolding checkBasicAuth_iff header using decoded by auto
    also have "\<dots> = (user @ CHR '':'' # pass = BasicAuthUsername config @ CHR '':'' # BasicAuthPassword config
         \<and> CHR '':'' \<notin> set (BasicAuthUsername config))"
      by simp
    also have "\<dots> = (user = BasicAuthUsername config \<and> pass = BasicAuthPassword config)"
      using first_sep_unique [of user "CHR '':''" pass "BasicAuthUsername config" "BasicAuthPassword config"]
        user by blast
    finally show "checkBasicAuth config r
        = (user = BasicAuthUsername config \<and> pass = BasicAuthPassword config)" .
  qed
  have part3: "\<forall>payload credentials.
            auth = ''Basic '' @ payload \<and> DecodeString payload = Inr credentials
            \<and> CHR '':'' \<notin> set credentials \<longrightarrow>
            \<not> checkBasicAuth config r"
  proof (intro allI impI)
    fix payload credentials
    assume a: "auth = ''Basic '' @ payload \<and> DecodeString payload = Inr credentials
            \<and> CHR '':'' \<notin> set credentials"
    then have header: "Get (Header r) ''Authorization'' = ''Basic '' @ payload"
      and decoded: "DecodeString payload = Inr credentials"
      and nocolon: "CHR '':'' \<notin> set credentials"
      unfolding auth by blast+
    show "\<not> checkBasicAuth config r"
    proof
      assume "checkBasicAuth config r"
      then have "DecodeString payload
          = Inr (BasicAuthUsername config @ '':'' @ BasicAuthPassword config)"
        unfolding checkBasicAuth_iff header by auto
      with decoded have "credentials = BasicAuthUsername config @ '':'' @ BasicAuthPassword config"
        by simp
      with nocolon show False by simp
    qed
  qed
  show ?thesis by (rule conjI [OF part1 conjI [OF part2 part3]])
qed

theorem checkBasicAuth_first_colon_witness:
  "EncodeToString ''user:pa:ss'' = ''dXNlcjpwYTpzcw==''
   \<and> checkBasicAuth (colonConfig ''user'' ''pa:ss'') (authRequest ''Basic dXNlcjpwYTpzcw=='')
   \<and> \<not> checkBasicAuth (colonConfig ''user:pa'' ''ss'') (authRequest ''Basic dXNlcjpwYTpzcw=='')
   \<and> \<not> checkBasicAuth (colonConfig ''user'' ''pa:ss'') (authRequest ''Basic bm9jb2xvbg=='')"
proof -
  have encoded: "EncodeToString ''user:pa:ss'' = ''dXNlcjpwYTpzcw==''"
    by (simp add: base64_defs)
  have header: "h = Get (Header (authRequest h)) ''Authorization''" for h
    by (simp add: authRequest_def Get_def)
  have ok: "CHR '':'' \<notin> set (BasicAuthUsername (colonConfig ''user'' ''pa:ss''))
      \<and> ''Basic dXNlcjpwYTpzcw=='' = ''Basic '' @ EncodeToString
          (BasicAuthUsername (colonConfig ''user'' ''pa:ss'') @ '':''
             @ BasicAuthPassword (colonConfig ''user'' ''pa:ss''))"
    by (simp add: colonConfig_def base64_defs)
  have 1: "checkBasicAuth (colonConfig ''user'' ''pa:ss'') (authRequest ''Basic dXNlcjpwYTpzcw=='')"
    using checkBasicAuth_first_colon [OF header [of "''Basic dXNlcjpwYTpzcw==''"], of "colonConfig ''user'' ''pa:ss''"] ok by blast
  have decoded: "DecodeString ''dXNlcjpwYTpzcw=='' = Inr (''user'' @ '':'' @ ''pa:ss'')"
    by (simp add: base64_defs)
  have first: "''Basic dXNlcjpwYTpzcw=='' = ''Basic '' @ ''dXNlcjpwYTpzcw==''
      \<and> DecodeString ''dXNlcjpwYTpzcw=='' = Inr (''user'' @ '':'' @ ''pa:ss'')
      \<and> CHR '':'' \<notin> set ''user''"
    using decoded by simp
  have differ: "\<not> (''user'' = BasicAuthUsername (colonConfig ''user:pa'' ''ss'')
      \<and> ''pa:ss'' = BasicAuthPassword (colonConfig ''user:pa'' ''ss''))"
    by (simp add: colonConfig_def)
  have 2: "\<not> checkBasicAuth (colonConfig ''user:pa'' ''ss'') (authRequest ''Basic dXNlcjpwYTpzcw=='')"
    using checkBasicAuth_first_colon [OF header [of "''Basic dXNlcjpwYTpzcw==''"], of "colonConfig ''user:pa'' ''ss''"] first differ by blast
  have nocolon: "''Basic bm9jb2xvbg=='' = ''Basic '' @ ''bm9jb2xvbg==''
      \<and> DecodeString ''bm9jb2xvbg=='' = Inr ''nocolon'' \<and> CHR '':'' \<notin> set ''nocolon''"
    by (simp add: DecodeString_examples)
  have 3: "\<not> checkBasicAuth (colonConfig ''user'' ''pa:ss'') (authRequest ''Basic bm9jb2xvbg=='')"
    using checkBasicAuth_first_colon [OF header [of "''Basic bm9jb2xvbg==''"], of "colonConfig ''user'' ''pa:ss''"] nocolon by blast
  from encoded 1 2 3 show ?thesis by blast
qed

end
